theory Spec2Isabelle
  imports Main
begin

section \<open>HTTP responses and middleware outcomes\<close>

text \<open>
  The JSON values the handlers put into response bodies.
\<close>

datatype json =
    JNull
  | JBool bool
  | JNum int
  | JStr string
  | JArr "json list"
  | JObj "(string \<times> json) list"

text \<open>
  Errors thrown in the service and persistence layers. \<open>ReferenceError\<close> is the
  built-in error class the services reuse for their domain failures; \<open>CastError\<close> is
  what the persistence layer throws for an id that is not an ObjectId; \<open>JsError\<close> stands
  for every other \<open>Error\<close> (connectivity, the hashing library).
\<close>

datatype error =
    ReferenceError string
  | CastError string
  | ValidationError string
  | JsError string

fun isReferenceError :: "error \<Rightarrow> bool" where
  "isReferenceError (ReferenceError m) = True"
| "isReferenceError e = False"

text \<open>
  A response body: a JSON value written by the handler, an entity handed to
  \<open>res.json\<close>, a caught error object handed to \<open>res.json\<close> as it is, or nothing
  (\<open>res.send()\<close>). A response is one \<open>res.status(s).json(b)\<close> call; a handler
  returns the list of the calls it makes on \<open>res\<close>, in order.
\<close>

datatype 'a body =
    Json json
  | Entity 'a
  | Raw error
  | NoBody

type_synonym 'a response = "nat \<times> 'a body"

definition message :: "string \<Rightarrow> 'a body" where
  "message m = Json (JObj [(''message'', JStr m)])"

text \<open>
  A middleware either answers the request itself or calls \<open>next()\<close>; \<open>Next x\<close>
  carries what the middleware attached to the request.
\<close>

datatype ('a, 'b) mw =
    Respond "'b response"
  | Next 'a

section \<open>The authentication middleware (middlewares/auth.middleware.ts)\<close>

text \<open>
  \<open>String.prototype.split\<close> with a one-character separator: the pieces between the
  separators, empty pieces included; the empty string gives one empty piece.
\<close>

fun split :: "char \<Rightarrow> string \<Rightarrow> string list" where
  "split c [] = [[]]"
| "split c (x # xs) =
     (if x = c then [] # split c xs
      else (case split c xs of
              [] \<Rightarrow> [[x]]
            | w # ws \<Rightarrow> (x # w) # ws))"

text \<open>Array indexing: \<open>undefined\<close> (here \<open>None\<close>) out of range.\<close>

definition elementAt :: "'a list \<Rightarrow> nat \<Rightarrow> 'a option" where
  "elementAt xs n = (if n < length xs then Some (xs ! n) else None)"

text \<open>
  The runtime value of the \<open>roles\<close> property of a decoded token: the declared type
  is \<open>string[]\<close>, but the type assertion on the result of \<open>jwt.verify\<close> checks
  nothing, so the middlewares test it.
\<close>

datatype js_roles =
    RUndefined
  | RNull
  | RString string
  | RArray "string list"

record JwtCustomPayload =
  jwt_id :: string
  jwt_roles :: js_roles

text \<open>\<open>process.env.JWT_SECRET || 'defaultSecret'\<close>: unset and empty both fall back.\<close>

definition secretKey :: "string option \<Rightarrow> string" where
  "secretKey env_JWT_SECRET =
     (case env_JWT_SECRET of
        None \<Rightarrow> ''defaultSecret''
      | Some s \<Rightarrow> if s = [] then ''defaultSecret'' else s)"

text \<open>Line 6: \<open>req.headers.authorization?.split(' ')[1]\<close>.\<close>

definition bearerToken :: "string option \<Rightarrow> string option" where
  "bearerToken authorization =
     (case authorization of
        None \<Rightarrow> None
      | Some h \<Rightarrow> elementAt (split CHR '' '' h) 1)"

text \<open>
  \<open>jwt_verify token secret\<close> is the library call \<open>jwt.verify\<close>: \<open>None\<close> when it
  throws, the decoded payload otherwise. \<open>!token\<close> holds for \<open>undefined\<close> and for
  the empty string.
\<close>

definition authMiddleware ::
  "(string \<Rightarrow> string \<Rightarrow> JwtCustomPayload option) \<Rightarrow> string option \<Rightarrow> string option
     \<Rightarrow> (JwtCustomPayload, 'b) mw" where
  "authMiddleware jwt_verify env_JWT_SECRET authorization =
     (case bearerToken authorization of
        None \<Rightarrow> Respond (401, message ''Access denied. No token provided.'')
      | Some token \<Rightarrow>
          if token = [] then Respond (401, message ''Access denied. No token provided.'')
          else (case jwt_verify token (secretKey env_JWT_SECRET) of
                  Some decoded \<Rightarrow> Next decoded
                | None \<Rightarrow> Respond (403, message ''Invalid token.'')))"

section \<open>The role gate (middlewares/preAuthorize.middleware.ts)\<close>

datatype UserRole = ADMIN | USER

fun role_name :: "UserRole \<Rightarrow> string" where
  "role_name ADMIN = ''admin''"
| "role_name USER = ''user''"

text \<open>JavaScript truthiness and \<open>Array.isArray\<close> on the value of \<open>user.roles\<close>.\<close>

fun truthy :: "js_roles \<Rightarrow> bool" where
  "truthy RUndefined = False"
| "truthy RNull = False"
| "truthy (RString s) = (s \<noteq> [])"
| "truthy (RArray rs) = True"

fun isArray :: "js_roles \<Rightarrow> bool" where
  "isArray (RArray rs) = True"
| "isArray r = False"

fun roles_includes :: "js_roles \<Rightarrow> string \<Rightarrow> bool" where
  "roles_includes (RArray rs) r = List.member rs r"
| "roles_includes v r = False"

text \<open>\<open>req.user\<close> is \<open>None\<close> when no payload was attached (undefined or null).\<close>

definition checkRole :: "UserRole \<Rightarrow> JwtCustomPayload option \<Rightarrow> (unit, 'b) mw" where
  "checkRole requiredRole user =
     (case user of
        None \<Rightarrow> Respond (403, message ''Access denied. No roles found.'')
      | Some u \<Rightarrow>
          if \<not> truthy (jwt_roles u) \<or> \<not> isArray (jwt_roles u)
          then Respond (403, message ''Access denied. No roles found.'')
          else if \<not> roles_includes (jwt_roles u) (role_name requiredRole)
          then Respond (403, message ''Access denied.'')
          else Next ())"

section \<open>The persistence layer\<close>

text \<open>
  The three collections of the document store, as the services see them through their
  models. Every document has an id and the soft-delete stamp \<open>deletedAt\<close>
  (\<open>None\<close> is \<open>null\<close>: active). Times are numbers (milliseconds). Documents are kept
  in store order. The bookkeeping stamps \<open>createdAt\<close> and \<open>updatedAt\<close> are left out:
  no service reads them.
\<close>

record Document =
  doc_id :: string
  deletedAt :: "nat option"

text \<open>
  \<open>password\<close> is \<open>None\<close> in a document read without the password: the schema
  declares it \<open>select: false\<close>.
\<close>

record UserDocument = Document +
  userName :: string
  email :: string
  password :: "string option"
  roles :: "string list"

record RestaurantDocument = Document +
  restaurantName :: string
  address :: string
  city :: string
  nit :: string
  phone :: string

record ReservationDocument = Document +
  date :: string
  hour :: string
  restaurantId :: string
  userId :: string
  userQuantity :: int
  status :: string

datatype coll = Users | Restaurants | Reservations

datatype db_op =
    FindOne
  | FindMany
  | FindById
  | Exists
  | Create
  | FindOneAndUpdate
  | FindByIdAndUpdate

datatype db_call = Call coll db_op

text \<open>
  The store: the collections, a connectivity fault (when set, every query fails with
  it), and the log of the calls the services have made on the models so far.
\<close>

record db =
  users :: "UserDocument list"
  restaurants :: "RestaurantDocument list"
  reservations :: "ReservationDocument list"
  fault :: "error option"
  calls :: "db_call list"

definition logged :: "coll \<Rightarrow> db_op \<Rightarrow> db \<Rightarrow> db" where
  "logged c k s = s\<lparr>calls := calls s @ [Call c k]\<rparr>"

text \<open>
  An id is cast to an ObjectId before the query is sent: a string of 24 hexadecimal
  digits, or the cast fails with a \<open>CastError\<close>. (This is the cast of the current
  driver; older ones also took any string of 12 characters.)
\<close>

definition isHex :: "char \<Rightarrow> bool" where
  "isHex c = (c \<in> set ''0123456789abcdefABCDEF'')"

definition isObjectId :: "string \<Rightarrow> bool" where
  "isObjectId s = (length s = 24 \<and> list_all isHex s)"

text \<open>
  Ids are compared as ObjectIds, not as texts: the cast reads the hexadecimal digits in
  either case, so an upper-case spelling of a stored id is the same id.
  \<open>objectIdOf\<close> is the text of the ObjectId (lower case).
\<close>

definition toLowerHex :: "char \<Rightarrow> char" where
  "toLowerHex c =
     (if c = CHR ''A'' then CHR ''a''
      else if c = CHR ''B'' then CHR ''b''
      else if c = CHR ''C'' then CHR ''c''
      else if c = CHR ''D'' then CHR ''d''
      else if c = CHR ''E'' then CHR ''e''
      else if c = CHR ''F'' then CHR ''f''
      else c)"

definition objectIdOf :: "string \<Rightarrow> string" where
  "objectIdOf k = map toLowerHex k"

definition hasId :: "string \<Rightarrow> 'a Document_scheme \<Rightarrow> bool" where
  "hasId k d = (objectIdOf (doc_id d) = objectIdOf k)"

fun updateFirst :: "('a \<Rightarrow> bool) \<Rightarrow> ('a \<Rightarrow> 'a) \<Rightarrow> 'a list \<Rightarrow> 'a list" where
  "updateFirst p f [] = []"
| "updateFirst p f (x # xs) = (if p x then f x # xs else x # updateFirst p f xs)"

definition hidePassword :: "UserDocument \<Rightarrow> UserDocument" where
  "hidePassword u = u\<lparr>password := None\<rparr>"

subsection \<open>UserModel\<close>

text \<open>\<open>UserModel.findOne({ email }).select(password ? '+password' : '-password')\<close>.\<close>

definition UserModel_findOne_email ::
  "string \<Rightarrow> bool \<Rightarrow> db \<Rightarrow> (error + UserDocument option) \<times> db" where
  "UserModel_findOne_email e withPassword s =
     (let s1 = logged Users FindOne s in
      case fault s of
        Some err \<Rightarrow> (Inl err, s1)
      | None \<Rightarrow>
          (Inr (map_option (\<lambda>u. if withPassword then u else hidePassword u)
                  (List.find (\<lambda>u. email u = e) (users s))), s1))"

text \<open>\<open>UserModel.find({ deletedAt: null })\<close>.\<close>

definition UserModel_find_active :: "db \<Rightarrow> (error + UserDocument list) \<times> db" where
  "UserModel_find_active s =
     (let s1 = logged Users FindMany s in
      case fault s of
        Some err \<Rightarrow> (Inl err, s1)
      | None \<Rightarrow> (Inr (map hidePassword (filter (\<lambda>u. deletedAt u = None) (users s))), s1))"

text \<open>
  \<open>UserModel.findById(id)\<close>; \<open>findById(undefined)\<close> (here \<open>None\<close>) finds nothing.
\<close>

definition UserModel_findById ::
  "string option \<Rightarrow> db \<Rightarrow> (error + UserDocument option) \<times> db" where
  "UserModel_findById i s =
     (let s1 = logged Users FindById s in
      case i of
        None \<Rightarrow> (case fault s of Some err \<Rightarrow> (Inl err, s1) | None \<Rightarrow> (Inr None, s1))
      | Some k \<Rightarrow>
          if \<not> isObjectId k then (Inl (CastError k), s1)
          else (case fault s of
                  Some err \<Rightarrow> (Inl err, s1)
                | None \<Rightarrow>
                    (Inr (map_option hidePassword (List.find (hasId k) (users s))), s1)))"





text \<open>\<open>UserModel.findByIdAndUpdate(id, { deletedAt: new Date() })\<close>.\<close>

definition UserModel_findByIdAndUpdate_deletedAt ::
  "string \<Rightarrow> nat \<Rightarrow> db \<Rightarrow> (error + UserDocument option) \<times> db" where
  "UserModel_findByIdAndUpdate_deletedAt i now s =
     (let s1 = logged Users FindByIdAndUpdate s in
      if \<not> isObjectId i then (Inl (CastError i), s1)
      else (case fault s of
              Some err \<Rightarrow> (Inl err, s1)
            | None \<Rightarrow>
                (case List.find (hasId i) (users s) of
                   None \<Rightarrow> (Inr None, s1)
                 | Some u \<Rightarrow>
                     (Inr (Some (hidePassword u)),
                      s1\<lparr>users :=
                            updateFirst (hasId i) (\<lambda>u. u\<lparr>deletedAt := Some now\<rparr>)
                              (users s)\<rparr>))))"

subsection \<open>RestaurantModel\<close>

record RestaurantInput =
  in_name :: string
  in_address :: string
  in_city :: string
  in_nit :: string
  in_phone :: string

text \<open>\<open>RestaurantModel.exists({ nit })\<close>: any document with the tax id, deleted or not.\<close>

definition RestaurantModel_exists_nit :: "string \<Rightarrow> db \<Rightarrow> (error + bool) \<times> db" where
  "RestaurantModel_exists_nit n s =
     (let s1 = logged Restaurants Exists s in
      case fault s of
        Some err \<Rightarrow> (Inl err, s1)
      | None \<Rightarrow> (Inr (list_ex (\<lambda>r. nit r = n) (restaurants s)), s1))"

text \<open>
  \<open>RestaurantModel.create(input)\<close>: every path is required (an empty string fails
  \<open>required\<close>) and \<open>nit\<close> has a unique index. \<open>fresh\<close> is the id the store gives
  the new document.
\<close>

definition RestaurantModel_create ::
  "RestaurantInput \<Rightarrow> string \<Rightarrow> db \<Rightarrow> (error + RestaurantDocument) \<times> db" where
  "RestaurantModel_create inp fresh s =
     (let s1 = logged Restaurants Create s in
      if in_name inp = [] \<or> in_address inp = [] \<or> in_city inp = [] \<or> in_nit inp = []
          \<or> in_phone inp = []
      then (Inl (ValidationError ''Restaurant validation failed''), s1)
      else (case fault s of
              Some err \<Rightarrow> (Inl err, s1)
            | None \<Rightarrow>
                if list_ex (\<lambda>r. nit r = in_nit inp) (restaurants s)
                then (Inl (JsError ''E11000 duplicate key error''), s1)
                else (let d = \<lparr> doc_id = fresh, deletedAt = None,
                                 restaurantName = in_name inp, address = in_address inp,
                                 city = in_city inp, nit = in_nit inp, phone = in_phone inp \<rparr>
                      in (Inr d, s1\<lparr>restaurants := restaurants s @ [d]\<rparr>))))"

text \<open>\<open>RestaurantModel.find({ deletedAt: null })\<close>.\<close>

definition RestaurantModel_find_active :: "db \<Rightarrow> (error + RestaurantDocument list) \<times> db" where
  "RestaurantModel_find_active s =
     (let s1 = logged Restaurants FindMany s in
      case fault s of
        Some err \<Rightarrow> (Inl err, s1)
      | None \<Rightarrow> (Inr (filter (\<lambda>r. deletedAt r = None) (restaurants s)), s1))"

text \<open>\<open>RestaurantModel.findById(id)\<close>.\<close>

definition RestaurantModel_findById ::
  "string option \<Rightarrow> db \<Rightarrow> (error + RestaurantDocument option) \<times> db" where
  "RestaurantModel_findById i s =
     (let s1 = logged Restaurants FindById s in
      case i of
        None \<Rightarrow> (case fault s of Some err \<Rightarrow> (Inl err, s1) | None \<Rightarrow> (Inr None, s1))
      | Some k \<Rightarrow>
          if \<not> isObjectId k then (Inl (CastError k), s1)
          else (case fault s of
                  Some err \<Rightarrow> (Inl err, s1)
                | None \<Rightarrow> (Inr (List.find (hasId k) (restaurants s)), s1)))"

text \<open>
  \<open>RestaurantModel.findByIdAndUpdate(id, { deletedAt: new Date() })\<close>: the filter is the
  id alone; the result is the document as it was before the update, or \<open>null\<close>.
\<close>

definition RestaurantModel_findByIdAndUpdate_deletedAt ::
  "string \<Rightarrow> nat \<Rightarrow> db \<Rightarrow> (error + RestaurantDocument option) \<times> db" where
  "RestaurantModel_findByIdAndUpdate_deletedAt i now s =
     (let s1 = logged Restaurants FindByIdAndUpdate s in
      if \<not> isObjectId i then (Inl (CastError i), s1)
      else (case fault s of
              Some err \<Rightarrow> (Inl err, s1)
            | None \<Rightarrow>
                (case List.find (hasId i) (restaurants s) of
                   None \<Rightarrow> (Inr None, s1)
                 | Some r \<Rightarrow>
                     (Inr (Some r),
                      s1\<lparr>restaurants :=
                            updateFirst (hasId i) (\<lambda>r. r\<lparr>deletedAt := Some now\<rparr>)
                              (restaurants s)\<rparr>))))"

subsection \<open>ReservationModel\<close>

text \<open>
  The body of a reservation request, read as \<open>ReservationInput\<close>: the type assertion
  checks nothing, so every field may be missing (\<open>None\<close>).
\<close>

record ReservationInput =
  in_date :: "string option"
  in_hour :: "string option"
  in_restaurantId :: "string option"
  in_userId :: "string option"
  in_userQuantity :: "int option"
  in_status :: "string option"

text \<open>
  \<open>ReservationModel.create(input)\<close>: every path is required (an empty text fails
  \<open>required\<close>), the two references are cast to ObjectIds and the date text is cast
  to a date. \<open>castsToDate\<close> says which texts the runtime's date constructor reads as
  a date; the document keeps the text.
\<close>

definition ReservationModel_create ::
  "(string \<Rightarrow> bool) \<Rightarrow> ReservationInput \<Rightarrow> string \<Rightarrow> db
     \<Rightarrow> (error + ReservationDocument) \<times> db" where
  "ReservationModel_create castsToDate inp fresh s =
     (let s1 = logged Reservations Create s in
      case (in_date inp, in_hour inp, in_restaurantId inp, in_userId inp,
            in_userQuantity inp, in_status inp) of
        (Some d, Some h, Some r, Some u, Some q, Some st) \<Rightarrow>
          if d = [] \<or> \<not> castsToDate d \<or> h = [] \<or> st = []
              \<or> \<not> isObjectId r \<or> \<not> isObjectId u
          then (Inl (ValidationError ''Reservation validation failed''), s1)
          else (case fault s of
                  Some err \<Rightarrow> (Inl err, s1)
                | None \<Rightarrow>
                    (let doc = \<lparr> doc_id = fresh, deletedAt = None, date = d, hour = h,
                                   restaurantId = objectIdOf r, userId = objectIdOf u,
                                   userQuantity = q,
                                   status = st \<rparr>
                     in (Inr doc, s1\<lparr>reservations := reservations s @ [doc]\<rparr>)))
      | _ \<Rightarrow> (Inl (ValidationError ''Reservation validation failed''), s1))"

text \<open>
  A reservation with its references resolved by \<open>populate\<close>: the restaurant's id, name
  and address and the user's id and name, or \<open>None\<close> (\<open>null\<close>) when the referenced
  document is not in its collection. \<open>populate\<close> looks the references up by id alone.
\<close>

record PopulatedReservation =
  reservation :: ReservationDocument
  restaurantRef :: "(string \<times> string \<times> string) option"
  userRef :: "(string \<times> string) option"

definition populate :: "db \<Rightarrow> ReservationDocument \<Rightarrow> PopulatedReservation" where
  "populate s r =
     \<lparr> reservation = r,
       restaurantRef =
         map_option (\<lambda>d. (doc_id d, restaurantName d, address d))
           (List.find (hasId (restaurantId r)) (restaurants s)),
       userRef =
         map_option (\<lambda>u. (doc_id u, userName u))
           (List.find (hasId (userId r)) (users s)) \<rparr>"

text \<open>
  \<open>ReservationModel.find({deletedAt: null}).populate('restaurantId', 'name address')
  .populate('userId', 'name')\<close>.
\<close>

definition ReservationModel_find_active_populated ::
  "db \<Rightarrow> (error + PopulatedReservation list) \<times> db" where
  "ReservationModel_find_active_populated s =
     (let s1 = logged Reservations FindMany s in
      case fault s of
        Some err \<Rightarrow> (Inl err, s1)
      | None \<Rightarrow> (Inr (map (populate s) (filter (\<lambda>r. deletedAt r = None) (reservations s))), s1))"

text \<open>
  \<open>ReservationModel.findById(id).populate('restaurantId', 'name address')
  .populate('userId', 'name')\<close>.
\<close>

definition ReservationModel_findById_populated ::
  "string \<Rightarrow> db \<Rightarrow> (error + PopulatedReservation option) \<times> db" where
  "ReservationModel_findById_populated i s =
     (let s1 = logged Reservations FindById s in
      if \<not> isObjectId i then (Inl (CastError i), s1)
      else (case fault s of
              Some err \<Rightarrow> (Inl err, s1)
            | None \<Rightarrow>
                (Inr (map_option (populate s) (List.find (hasId i) (reservations s))),
                 s1)))"

text \<open>\<open>ReservationModel.findByIdAndUpdate(id, { deletedAt: new Date() })\<close>.\<close>

definition ReservationModel_findByIdAndUpdate_deletedAt ::
  "string \<Rightarrow> nat \<Rightarrow> db \<Rightarrow> (error + ReservationDocument option) \<times> db" where
  "ReservationModel_findByIdAndUpdate_deletedAt i now s =
     (let s1 = logged Reservations FindByIdAndUpdate s in
      if \<not> isObjectId i then (Inl (CastError i), s1)
      else (case fault s of
              Some err \<Rightarrow> (Inl err, s1)
            | None \<Rightarrow>
                (case List.find (hasId i) (reservations s) of
                   None \<Rightarrow> (Inr None, s1)
                 | Some r \<Rightarrow>
                     (Inr (Some r),
                      s1\<lparr>reservations :=
                            updateFirst (hasId i) (\<lambda>r. r\<lparr>deletedAt := Some now\<rparr>)
                              (reservations s)\<rparr>))))"

section \<open>The services\<close>

text \<open>In every \<open>delete\<close>, \<open>now\<close> is the value of \<open>new Date()\<close>.\<close>

subsection \<open>UserService (services/user.service.ts)\<close>

definition UserService_findByEmail ::
  "string \<Rightarrow> bool \<Rightarrow> db \<Rightarrow> (error + UserDocument option) \<times> db" where
  "UserService_findByEmail e withPassword s = UserModel_findOne_email e withPassword s"


definition UserService_getAll :: "db \<Rightarrow> (error + UserDocument list) \<times> db" where
  "UserService_getAll s = UserModel_find_active s"

definition UserService_getById :: "string \<Rightarrow> db \<Rightarrow> (error + UserDocument option) \<times> db" where
  "UserService_getById i s = UserModel_findById (Some i) s"

definition UserService_delete :: "string \<Rightarrow> nat \<Rightarrow> db \<Rightarrow> (error + bool) \<times> db" where
  "UserService_delete i now s =
     (case UserModel_findByIdAndUpdate_deletedAt i now s of
        (Inl err, s1) \<Rightarrow> (Inl err, s1)
      | (Inr result, s1) \<Rightarrow> (Inr (result \<noteq> None), s1))"

subsection \<open>RestaurantService (services/restaurant.service.ts)\<close>

definition RestaurantService_create ::
  "RestaurantInput \<Rightarrow> string \<Rightarrow> db \<Rightarrow> (error + RestaurantDocument) \<times> db" where
  "RestaurantService_create restaurantInput fresh s =
     (case RestaurantModel_exists_nit (in_nit restaurantInput) s of
        (Inl err, s1) \<Rightarrow> (Inl err, s1)
      | (Inr restaurantExists, s1) \<Rightarrow>
          if restaurantExists then (Inl (ReferenceError ''Restaurant already exist''), s1)
          else RestaurantModel_create restaurantInput fresh s1)"

definition RestaurantService_getAll :: "db \<Rightarrow> (error + RestaurantDocument list) \<times> db" where
  "RestaurantService_getAll s = RestaurantModel_find_active s"

definition RestaurantService_getById ::
  "string \<Rightarrow> db \<Rightarrow> (error + RestaurantDocument option) \<times> db" where
  "RestaurantService_getById i s = RestaurantModel_findById (Some i) s"

definition RestaurantService_delete :: "string \<Rightarrow> nat \<Rightarrow> db \<Rightarrow> (error + bool) \<times> db" where
  "RestaurantService_delete i now s =
     (case RestaurantModel_findByIdAndUpdate_deletedAt i now s of
        (Inl err, s1) \<Rightarrow> (Inl err, s1)
      | (Inr result, s1) \<Rightarrow> (Inr (result \<noteq> None), s1))"

subsection \<open>ReservationService (services/reservation.service.ts)\<close>

definition ReservationService_create ::
  "(string \<Rightarrow> bool) \<Rightarrow> ReservationInput \<Rightarrow> string \<Rightarrow> db
     \<Rightarrow> (error + ReservationDocument) \<times> db" where
  "ReservationService_create castsToDate reservationInput fresh s =
     (case UserModel_findById (in_userId reservationInput) s of
        (Inl err, s1) \<Rightarrow> (Inl err, s1)
      | (Inr None, s1) \<Rightarrow> (Inl (ReferenceError ''User not found''), s1)
      | (Inr (Some userExists), s1) \<Rightarrow>
          (case RestaurantModel_findById (in_restaurantId reservationInput) s1 of
             (Inl err, s2) \<Rightarrow> (Inl err, s2)
           | (Inr None, s2) \<Rightarrow> (Inl (ReferenceError ''Restaurant not found''), s2)
           | (Inr (Some restaurantExists), s2) \<Rightarrow>
               ReservationModel_create castsToDate reservationInput fresh s2))"

definition ReservationService_getAll :: "db \<Rightarrow> (error + PopulatedReservation list) \<times> db" where
  "ReservationService_getAll s = ReservationModel_find_active_populated s"

definition ReservationService_getById ::
  "string \<Rightarrow> db \<Rightarrow> (error + PopulatedReservation option) \<times> db" where
  "ReservationService_getById i s = ReservationModel_findById_populated i s"

definition ReservationService_delete :: "string \<Rightarrow> nat \<Rightarrow> db \<Rightarrow> (error + bool) \<times> db" where
  "ReservationService_delete i now s =
     (case ReservationModel_findByIdAndUpdate_deletedAt i now s of
        (Inl err, s1) \<Rightarrow> (Inl err, s1)
      | (Inr result, s1) \<Rightarrow> (Inr (result \<noteq> None), s1))"

subsection \<open>AuthService (services/auth.service.ts)\<close>

record UserLoginInput =
  login_email :: string
  login_password :: string

record UserLoginOutput =
  out_id :: string
  out_roles :: "string list"
  out_token :: string

text \<open>
  \<open>jwt_sign (id, roles) secret expiresIn\<close> is the library call \<open>jwt.sign\<close> on the
  payload \<open>{id, roles}\<close>: the token, or the error it throws.
\<close>

definition AuthService_generateToken ::
  "(string \<times> string list \<Rightarrow> string \<Rightarrow> string \<Rightarrow> error + string) \<Rightarrow> string option
     \<Rightarrow> UserDocument \<Rightarrow> error + string" where
  "AuthService_generateToken jwt_sign env_JWT_SECRET user =
     jwt_sign (doc_id user, roles user) (secretKey env_JWT_SECRET) ''1h''"

text \<open>
  \<open>bcrypt_compare plain hash\<close> is the library call \<open>bcrypt.compare\<close>, which may
  throw; without a hash to compare with it throws.
\<close>

definition AuthService_login ::
  "(string \<Rightarrow> string \<Rightarrow> error + bool)
     \<Rightarrow> (string \<times> string list \<Rightarrow> string \<Rightarrow> string \<Rightarrow> error + string)
     \<Rightarrow> string option \<Rightarrow> UserLoginInput \<Rightarrow> db \<Rightarrow> (error + UserLoginOutput) \<times> db" where
  "AuthService_login bcrypt_compare jwt_sign env_JWT_SECRET userLogin s =
     (case UserService_findByEmail (login_email userLogin) True s of
        (Inl err, s1) \<Rightarrow> (Inl err, s1)
      | (Inr None, s1) \<Rightarrow> (Inl (ReferenceError ''Not Authorized''), s1)
      | (Inr (Some userExists), s1) \<Rightarrow>
          (case (case password userExists of
                   None \<Rightarrow> Inl (JsError ''data and hash arguments required'')
                 | Some h \<Rightarrow> bcrypt_compare (login_password userLogin) h) of
             Inl err \<Rightarrow> (Inl err, s1)
           | Inr isMatch \<Rightarrow>
               if \<not> isMatch then (Inl (ReferenceError ''Not Authorized''), s1)
               else (case AuthService_generateToken jwt_sign env_JWT_SECRET userExists of
                       Inl err \<Rightarrow> (Inl err, s1)
                     | Inr signed \<Rightarrow>
                         (Inr \<lparr> out_id = doc_id userExists, out_roles = roles userExists,
                                 out_token = signed \<rparr>, s1))))"

section \<open>The controllers\<close>

text \<open>
  A controller method returns the calls it makes on \<open>res\<close>, in order, and the store
  after it. \<open>res.json(x)\<close> without \<open>res.status\<close> answers with status 200.
\<close>

fun error_message :: "error \<Rightarrow> string" where
  "error_message (ReferenceError m) = m"
| "error_message (CastError m) = m"
| "error_message (ValidationError m) = m"
| "error_message (JsError m) = m"

subsection \<open>RestaurantController (controllers/restaurant.controller.ts)\<close>

text \<open>
  \<open>create\<close>: the branch for a \<open>ReferenceError\<close> does not return, so the call that
  answers 500 follows it.
\<close>

definition RestaurantController_create ::
  "RestaurantInput \<Rightarrow> string \<Rightarrow> db \<Rightarrow> RestaurantDocument response list \<times> db" where
  "RestaurantController_create req_body fresh s =
     (case RestaurantService_create req_body fresh s of
        (Inr newRestaurant, s1) \<Rightarrow> ([(201, Entity newRestaurant)], s1)
      | (Inl err, s1) \<Rightarrow>
          ((if isReferenceError err then [(400, message ''Restaurant already exist'')] else [])
             @ [(500, Raw err)], s1))"

definition RestaurantController_delete ::
  "string \<Rightarrow> nat \<Rightarrow> db \<Rightarrow> RestaurantDocument response list \<times> db" where
  "RestaurantController_delete i now s =
     (case RestaurantService_delete i now s of
        (Inr deleted, s1) \<Rightarrow>
          if \<not> deleted
          then ([(404, message (''Restaurant with id '' @ i @ '' not found''))], s1)
          else ([(204, NoBody)], s1)
      | (Inl err, s1) \<Rightarrow> ([(500, Raw err)], s1))"

subsection \<open>ReservationController (controllers/reservation.controller.ts)\<close>

definition ReservationController_create ::
  "(string \<Rightarrow> bool) \<Rightarrow> ReservationInput \<Rightarrow> string \<Rightarrow> db
     \<Rightarrow> ReservationDocument response list \<times> db" where
  "ReservationController_create castsToDate req_body fresh s =
     (case ReservationService_create castsToDate req_body fresh s of
        (Inr newReservation, s1) \<Rightarrow> ([(201, Entity newReservation)], s1)
      | (Inl err, s1) \<Rightarrow>
          ((if isReferenceError err then [(400, message ''Restaurant or User not found'')] else [])
             @ [(500, Raw err)], s1))"

definition ReservationController_delete ::
  "string \<Rightarrow> nat \<Rightarrow> db \<Rightarrow> ReservationDocument response list \<times> db" where
  "ReservationController_delete i now s =
     (case ReservationService_delete i now s of
        (Inr deleted, s1) \<Rightarrow>
          if \<not> deleted
          then ([(404, message (''Reservation with id '' @ i @ '' not found''))], s1)
          else ([(204, NoBody)], s1)
      | (Inl err, s1) \<Rightarrow> ([(500, Raw err)], s1))"

subsection \<open>AuthController (controllers/auth.controller.ts)\<close>

definition loginBody :: "UserLoginOutput \<Rightarrow> json" where
  "loginBody token =
     JObj [(''token'',
            JObj [(''id'', JStr (out_id token)),
                  (''roles'', JArr (map JStr (out_roles token))),
                  (''token'', JStr (out_token token))])]"

definition AuthController_login ::
  "(string \<Rightarrow> string \<Rightarrow> error + bool)
     \<Rightarrow> (string \<times> string list \<Rightarrow> string \<Rightarrow> string \<Rightarrow> error + string)
     \<Rightarrow> string option \<Rightarrow> UserLoginInput \<Rightarrow> db \<Rightarrow> unit response list \<times> db" where
  "AuthController_login bcrypt_compare jwt_sign env_JWT_SECRET req_body s =
     (case AuthService_login bcrypt_compare jwt_sign env_JWT_SECRET req_body s of
        (Inr token, s1) \<Rightarrow> ([(200, Json (loginBody token))], s1)
      | (Inl err, s1) \<Rightarrow>
          if isReferenceError err then ([(401, message (error_message err))], s1)
          else ([(500, message ''Internal server error'')], s1))"

section \<open>Request validation\<close>

text \<open>
  Strings are sequences of code units below 256. \<open>isSpace\<close> is the class \<open>\s\<close> of
  a JavaScript regular expression on such units; \<open>trim\<close> removes it at both ends.
\<close>

definition isSpace :: "char \<Rightarrow> bool" where
  "isSpace c = ((of_char c :: nat) \<in> set [9, 10, 11, 12, 13, 32, 160])"

definition trim :: "string \<Rightarrow> string" where
  "trim v = rev (dropWhile isSpace (rev (dropWhile isSpace v)))"

definition isLength :: "nat \<Rightarrow> nat \<Rightarrow> string \<Rightarrow> bool" where
  "isLength lo hi v = (lo \<le> length v \<and> length v \<le> hi)"

text \<open>The text a validator sees for a field: the empty string when the field is missing.\<close>

definition fieldText :: "string option \<Rightarrow> string" where
  "fieldText v = (case v of None \<Rightarrow> [] | Some t \<Rightarrow> t)"

text \<open>A validation failure: the field, the message and the offending value.\<close>

type_synonym field_error = "string \<times> string \<times> json option"

subsection \<open>reservationValidations.create (validators/reservation.validator.ts)\<close>

text \<open>The pattern \<open>/^(0[1-9]|1[0-2]):[0-5][0-9](AM|PM)$/\<close>.\<close>

definition matchesHour :: "string \<Rightarrow> bool" where
  "matchesHour v =
     (case v of
        [h1, h2, c, m1, m2, a, m] \<Rightarrow>
          ((h1 = CHR ''0'' \<and> h2 \<in> set ''123456789'') \<or> (h1 = CHR ''1'' \<and> h2 \<in> set ''012''))
          \<and> c = CHR '':''
          \<and> m1 \<in> set ''012345'' \<and> m2 \<in> set ''0123456789''
          \<and> (a = CHR ''A'' \<or> a = CHR ''P'') \<and> m = CHR ''M''
      | _ \<Rightarrow> False)"

text \<open>
  The rules of the chain, in order: \<open>date\<close>, \<open>hour\<close>, \<open>userQuantity\<close>,
  \<open>status\<close>. Each rule reads its own field; a sanitizer (\<open>trim\<close>, \<open>toInt\<close>)
  writes the field back. \<open>isISO8601\<close> is the library's check. \<open>isInt\<close> reads the
  number as text: from \<open>1e21\<close> on the text has an exponent and is not an integer's.
  The result is the list of failures and the body after the sanitizers.
\<close>

definition reservationValidations_create ::
  "(string \<Rightarrow> bool) \<Rightarrow> ReservationInput \<Rightarrow> field_error list \<times> ReservationInput" where
  "reservationValidations_create isISO8601 b =
     (let hourV = trim (fieldText (in_hour b));
          statusV = trim (fieldText (in_status b))
      in
      ((if isISO8601 (fieldText (in_date b)) then []
        else [(''date'', ''Date must be a valid date'', map_option JStr (in_date b))])
       @ (if isLength 1 20 hourV then []
          else [(''hour'', ''Hour must be between 1 and 20 characters'', Some (JStr hourV))])
       @ (if matchesHour hourV then []
          else [(''hour'', ''Please provide a valid hour'', Some (JStr hourV))])
       @ (if (case in_userQuantity b of
                None \<Rightarrow> False
              | Some n \<Rightarrow> 1 < n \<and> n < 1000000000000000000000) then []
          else [(''userQuantity'', ''User quantity must be greater than 1'',
                 map_option JNum (in_userQuantity b))])
       @ (if isLength 1 15 statusV then []
          else [(''status'', ''Status must be between 1 and 15 characters'', Some (JStr statusV))]),
       b\<lparr> in_hour := Some hourV, in_status := Some statusV \<rparr>))"

subsection \<open>userValidations.update (validators/user.validator.ts)\<close>




subsection \<open>handleValidationErrors\<close>

text \<open>
  Modelled from the spec: the source of \<open>handleValidationErrors\<close>
  (middlewares/handle.middleware.ts) is missing; only its test is there. On failure it
  answers 400 with the failures as an ordered list of \<open>{field, message, value}\<close>; on
  success it forwards the request.
\<close>

definition errorItem :: "field_error \<Rightarrow> json" where
  "errorItem e =
     (case e of (f, m, v) \<Rightarrow>
        JObj ([(''field'', JStr f), (''message'', JStr m)]
              @ (case v of None \<Rightarrow> [] | Some x \<Rightarrow> [(''value'', x)])))"

definition handleValidationErrors :: "field_error list \<Rightarrow> (unit, 'b) mw" where
  "handleValidationErrors errs =
     (if errs = [] then Next ()
      else Respond (400, Json (JObj [(''message'', JStr ''Validation errors''),
                                     (''errors'', JArr (map errorItem errs))])))"

subsection \<open>The route \<open>POST /api/reservations\<close>, from validation on (routes/reservation.route.ts)\<close>

definition post_reservations ::
  "(string \<Rightarrow> bool) \<Rightarrow> (string \<Rightarrow> bool) \<Rightarrow> ReservationInput \<Rightarrow> string \<Rightarrow> db
     \<Rightarrow> ReservationDocument response list \<times> db" where
  "post_reservations isISO8601 castsToDate req_body fresh s =
     (case reservationValidations_create isISO8601 req_body of
        (errs, body1) \<Rightarrow>
          (case handleValidationErrors errs of
             Respond r \<Rightarrow> ([r], s)
           | Next u \<Rightarrow> ReservationController_create castsToDate body1 fresh s))"

section \<open>Properties of \<open>split\<close>\<close>

lemma split_no_sep: "c \<notin> set w \<Longrightarrow> split c w = [w]"
  by (induction w) auto

lemma split_first: "c \<notin> set w \<Longrightarrow> split c (w @ c # r) = w # split c r"
  by (induction w) auto

section \<open>Properties of the persistence layer\<close>

lemma find_updateFirst:
  "(\<And>x. p (f x) = p x) \<Longrightarrow> List.find p (updateFirst p f xs) = map_option f (List.find p xs)"
  by (induction xs) auto


lemma isObjectId_sample: "isObjectId ''0123456789abcdef01234567''"
  by (simp add: isObjectId_def isHex_def)

lemma isObjectId_short: "\<not> isObjectId ''abc''"
  by (simp add: isObjectId_def)

lemma isObjectId_upper: "isObjectId ''0123456789ABCDEF01234567''"
  by (simp add: isObjectId_def isHex_def)

lemma objectIdOf_upper:
  "objectIdOf ''0123456789ABCDEF01234567'' = objectIdOf ''0123456789abcdef01234567''"
  by (simp add: objectIdOf_def toLowerHex_def)

lemma hasId_deletedAt [simp]: "hasId i (d\<lparr>deletedAt := t\<rparr>) = hasId i d"
  by (simp add: hasId_def)


lemma RestaurantService_delete_found:
  assumes "isObjectId i" and "fault s = None"
    and "List.find (hasId i) (restaurants s) = Some r"
  shows "RestaurantService_delete i now s =
      (Inr True, s\<lparr>calls := calls s @ [Call Restaurants FindByIdAndUpdate],
                  restaurants := updateFirst (hasId i) (\<lambda>r. r\<lparr>deletedAt := Some now\<rparr>)
                                   (restaurants s)\<rparr>)"
  using assms
  by (simp add: RestaurantService_delete_def RestaurantModel_findByIdAndUpdate_deletedAt_def
        logged_def Let_def)

lemma UserService_delete_found:
  assumes "isObjectId i" and "fault s = None"
    and "List.find (hasId i) (users s) = Some u"
  shows "UserService_delete i now s =
      (Inr True, s\<lparr>calls := calls s @ [Call Users FindByIdAndUpdate],
                  users := updateFirst (hasId i) (\<lambda>u. u\<lparr>deletedAt := Some now\<rparr>)
                             (users s)\<rparr>)"
  using assms
  by (simp add: UserService_delete_def UserModel_findByIdAndUpdate_deletedAt_def
        logged_def Let_def)

lemma ReservationService_delete_found:
  assumes "isObjectId i" and "fault s = None"
    and "List.find (hasId i) (reservations s) = Some r"
  shows "ReservationService_delete i now s =
      (Inr True, s\<lparr>calls := calls s @ [Call Reservations FindByIdAndUpdate],
                  reservations := updateFirst (hasId i) (\<lambda>r. r\<lparr>deletedAt := Some now\<rparr>)
                                    (reservations s)\<rparr>)"
  using assms
  by (simp add: ReservationService_delete_def ReservationModel_findByIdAndUpdate_deletedAt_def
        logged_def Let_def)

section \<open>Properties of the signing secret\<close>

text \<open>
  \<open>generateToken\<close> signs with the secret that \<open>authMiddleware\<close> verifies against
  under the same environment; with \<open>JWT_SECRET\<close> unset or empty it is the fixed
  default.
\<close>

lemma secretKey_default:
  "secretKey None = ''defaultSecret'' \<and> secretKey (Some []) = ''defaultSecret''"
  by (simp add: secretKey_def)

lemma generateToken_secret:
  "AuthService_generateToken jwt_sign env user
     = jwt_sign (doc_id user, roles user) (secretKey env) ''1h''"
  by (simp add: AuthService_generateToken_def)

section \<open>The claims\<close>

subsection \<open>C1: the two denial messages of the role gate\<close>

text \<open>
  C1, as the code has it. For every principal, \<open>checkRole("admin")\<close> answers 403 with
  the message "Access denied." both when the roles are the empty array and when they
  are \<open>["user"]\<close>: an empty array is truthy and is an array, so it passes the first
  test and fails the membership test. The message "Access denied. No roles found." is
  the answer when no user is attached to the request or when its roles are undefined,
  null or not an array. The two messages are distinct.
\<close>

theorem checkRole_admin_denials:
  "checkRole ADMIN (Some (u\<lparr>jwt_roles := RArray []\<rparr>))
     = (Respond (403, message ''Access denied.'') :: (unit, 'b) mw)
   \<and> checkRole ADMIN (Some (u\<lparr>jwt_roles := RArray [''user'']\<rparr>))
     = (Respond (403, message ''Access denied.'') :: (unit, 'b) mw)
   \<and> checkRole ADMIN None
     = (Respond (403, message ''Access denied. No roles found.'') :: (unit, 'b) mw)
   \<and> checkRole ADMIN (Some (u\<lparr>jwt_roles := RUndefined\<rparr>))
     = (Respond (403, message ''Access denied. No roles found.'') :: (unit, 'b) mw)
   \<and> checkRole ADMIN (Some (u\<lparr>jwt_roles := RNull\<rparr>))
     = (Respond (403, message ''Access denied. No roles found.'') :: (unit, 'b) mw)
   \<and> checkRole ADMIN (Some (u\<lparr>jwt_roles := RString t\<rparr>))
     = (Respond (403, message ''Access denied. No roles found.'') :: (unit, 'b) mw)
   \<and> (message ''Access denied.'' :: 'b body) \<noteq> message ''Access denied. No roles found.''"
  by (simp add: checkRole_def message_def)

theorem checkRole_admin_denials_witness:
  "checkRole ADMIN (Some \<lparr>jwt_id = ''u1'', jwt_roles = RArray []\<rparr>)
     = (Respond (403, message ''Access denied.'') :: (unit, unit) mw)
   \<and> checkRole ADMIN (Some \<lparr>jwt_id = ''u1'', jwt_roles = RArray [''user'']\<rparr>)
     = (Respond (403, message ''Access denied.'') :: (unit, unit) mw)
   \<and> checkRole ADMIN (Some \<lparr>jwt_id = ''u1'', jwt_roles = RString ''admin''\<rparr>)
     = (Respond (403, message ''Access denied. No roles found.'') :: (unit, unit) mw)"
  using checkRole_admin_denials
    [of "\<lparr>jwt_id = ''u1'', jwt_roles = RNull\<rparr>" "''admin''", where ?'b = unit]
  by simp

text \<open>
  C1 as stated fails: a principal with \<open>roles: []\<close> is not answered with
  "Access denied. No roles found.".
\<close>

theorem checkRole_empty_roles_counterexample:
  "checkRole ADMIN (Some \<lparr>jwt_id = ''u1'', jwt_roles = RArray []\<rparr>)
     \<noteq> (Respond (403, message ''Access denied. No roles found.'') :: (unit, unit) mw)"
  by (simp add: checkRole_def message_def)

subsection \<open>C3: the token the authentication middleware verifies\<close>

text \<open>
  C3, as the code has it. The token is the second piece of the Authorization header
  split at single spaces, whatever the first piece is: the scheme word \<open>w\<close> is never
  compared with "Bearer". What follows a second space is dropped, and the middleware
  answers a header with further pieces as it answers the header without them. A
  missing header, a header without a space and an empty second piece (also one followed
  by further pieces) are answered 401 "Access denied. No token provided." and nothing
  is verified; a token that fails verification is answered 403 "Invalid token."; the
  two answers differ. Every header is of one of the three forms \<open>w\<close>, \<open>w t\<close> and
  \<open>w t r\<close> with no space in \<open>w\<close> and \<open>t\<close>.
\<close>

theorem authMiddleware_token:
  assumes "CHR '' '' \<notin> set w" and "CHR '' '' \<notin> set t"
  shows "bearerToken (Some (w @ '' '' @ t)) = Some t
   \<and> bearerToken (Some (w @ '' '' @ t @ '' '' @ r)) = Some t
   \<and> bearerToken (Some w) = None
   \<and> bearerToken None = None
   \<and> (t \<noteq> [] \<longrightarrow> authMiddleware v env (Some (w @ '' '' @ t)) =
         (case v t (secretKey env) of
            Some decoded \<Rightarrow> Next decoded
          | None \<Rightarrow> (Respond (403, message ''Invalid token.'') :: (JwtCustomPayload, 'b) mw)))
   \<and> authMiddleware v env (Some (w @ '' '' @ t @ '' '' @ r)) =
         (if t = []
          then Respond (401, message ''Access denied. No token provided.'')
          else (case v t (secretKey env) of
                  Some decoded \<Rightarrow> Next decoded
                | None \<Rightarrow> (Respond (403, message ''Invalid token.'') :: (JwtCustomPayload, 'b) mw)))
   \<and> authMiddleware v env (Some (w @ '' ''))
       = (Respond (401, message ''Access denied. No token provided.'') :: (JwtCustomPayload, 'b) mw)
   \<and> authMiddleware v env (Some w)
       = (Respond (401, message ''Access denied. No token provided.'') :: (JwtCustomPayload, 'b) mw)
   \<and> authMiddleware v env None
       = (Respond (401, message ''Access denied. No token provided.'') :: (JwtCustomPayload, 'b) mw)
   \<and> ((401, message ''Access denied. No token provided.'') :: 'b response)
       \<noteq> (403, message ''Invalid token.'')"
proof -
  have a: "split CHR '' '' (w @ '' '' @ t) = [w, t]"
    using split_first [OF assms(1), of t] split_no_sep [OF assms(2)] by simp
  have b: "split CHR '' '' (w @ '' '' @ t @ '' '' @ r) = w # t # split CHR '' '' r"
    using split_first [OF assms(1), of "t @ '' '' @ r"] split_first [OF assms(2), of r] by simp
  have c: "split CHR '' '' w = [w]"
    using split_no_sep [OF assms(1)] .
  have d: "split CHR '' '' (w @ '' '') = [w, []]"
    using split_first [OF assms(1), of "[]"] by simp
  have t1: "bearerToken (Some (w @ '' '' @ t)) = Some t"
    using a by (simp add: bearerToken_def elementAt_def)
  have t2: "bearerToken (Some (w @ '' '' @ t @ '' '' @ r)) = Some t"
    using b by (simp add: bearerToken_def elementAt_def)
  have t3: "bearerToken (Some w) = None"
    using c by (simp add: bearerToken_def elementAt_def)
  have t4: "bearerToken (Some (w @ '' '')) = Some []"
    using d by (simp add: bearerToken_def elementAt_def)
  have t5: "bearerToken None = None"
    by (simp add: bearerToken_def elementAt_def)
  show ?thesis
    unfolding authMiddleware_def t1 t2 t3 t4 t5
    by (simp add: message_def split: option.splits)
qed

theorem authMiddleware_token_witness:
  "CHR '' '' \<notin> set ''Basic'' \<and> CHR '' '' \<notin> set ''tok''
   \<and> bearerToken (Some ''Basic tok'') = Some ''tok''
   \<and> bearerToken (Some ''Basic tok rest'') = Some ''tok''
   \<and> authMiddleware (\<lambda>token secret. None) None (Some ''Basic tok'')
       = (Respond (403, message ''Invalid token.'') :: (JwtCustomPayload, unit) mw)
   \<and> authMiddleware (\<lambda>token secret. None) None (Some ''Basic tok rest'')
       = (Respond (403, message ''Invalid token.'') :: (JwtCustomPayload, unit) mw)
   \<and> authMiddleware (\<lambda>token secret. None) None (Some ''Basic '')
       = (Respond (401, message ''Access denied. No token provided.'') :: (JwtCustomPayload, unit) mw)"
  using authMiddleware_token
    [of "''Basic''" "''tok''" "''rest''" "\<lambda>token secret. None" None, where ?'b = unit]
  by simp

text \<open>
  C3 as stated fails: a header whose scheme word is not the case-sensitive "Bearer"
  still yields a token, which is verified and accepted.
\<close>

theorem authMiddleware_lowercase_counterexample:
  "bearerToken (Some ''bearer abc'') = Some ''abc''
   \<and> authMiddleware
        (\<lambda>token secret. if token = ''abc'' \<and> secret = ''defaultSecret''
           then Some \<lparr>jwt_id = ''u1'', jwt_roles = RArray [''user'']\<rparr> else None)
        None (Some ''bearer abc'')
      = (Next \<lparr>jwt_id = ''u1'', jwt_roles = RArray [''user'']\<rparr> :: (JwtCustomPayload, unit) mw)"
  by (simp add: authMiddleware_def bearerToken_def elementAt_def secretKey_def)

subsection \<open>C2: what a user update can change\<close>




subsection \<open>C4: the answer of \<open>create\<close> to a domain existence error\<close>

text \<open>
  C4 says that on a \<open>ReferenceError\<close> the restaurant and reservation controllers
  answer once, with 400. The code at two such requests: a restaurant whose tax id is
  taken, and a reservation whose user is not stored. Each controller calls
  \<open>res.status(400).json\<close> and then, the branch having no \<open>return\<close>,
  \<open>res.status(500).json(error)\<close> with the raw error.
\<close>

theorem create_ReferenceError_two_responses:
  "fst (RestaurantController_create
          \<lparr>in_name = ''Sazon'', in_address = ''Calle 5'', in_city = ''Cali'', in_nit = ''900'', in_phone = ''555''\<rparr>
          ''0123456789abcdef01234568''
          \<lparr>users = [],
           restaurants = [\<lparr>doc_id = ''0123456789abcdef01234567'', deletedAt = None,
                           restaurantName = ''Otro'', address = ''Calle 1'', city = ''Cali'',
                           nit = ''900'', phone = ''111''\<rparr>],
           reservations = [], fault = None, calls = []\<rparr>)
     = [(400, message ''Restaurant already exist''),
        (500, Raw (ReferenceError ''Restaurant already exist''))]
   \<and> fst (ReservationController_create (\<lambda>d. True)
          \<lparr>in_date = Some ''2025-12-24'', in_hour = Some ''07:30PM'',
           in_restaurantId = Some ''0123456789abcdef01234567'',
           in_userId = Some ''0123456789abcdef01234567'',
           in_userQuantity = Some 2, in_status = Some ''pending''\<rparr>
          ''0123456789abcdef01234568''
          \<lparr>users = [], restaurants = [], reservations = [], fault = None, calls = []\<rparr>)
     = [(400, message ''Restaurant or User not found''),
        (500, Raw (ReferenceError ''User not found''))]"
  by (simp add: RestaurantController_create_def RestaurantService_create_def
        RestaurantModel_exists_nit_def ReservationController_create_def
        ReservationService_create_def UserModel_findById_def logged_def Let_def
        isObjectId_sample)

theorem create_ReferenceError_two_responses_witness:
  "length (fst (RestaurantController_create
          \<lparr>in_name = ''Sazon'', in_address = ''Calle 5'', in_city = ''Cali'', in_nit = ''900'', in_phone = ''555''\<rparr>
          ''0123456789abcdef01234568''
          \<lparr>users = [],
           restaurants = [\<lparr>doc_id = ''0123456789abcdef01234567'', deletedAt = None,
                           restaurantName = ''Otro'', address = ''Calle 1'', city = ''Cali'',
                           nit = ''900'', phone = ''111''\<rparr>],
           reservations = [], fault = None, calls = []\<rparr>)) = 2"
  using create_ReferenceError_two_responses by simp

subsection \<open>C5: which reads leave soft-deleted records out\<close>

text \<open>
  C5, as the code has it. For users, restaurants and reservations alike, \<open>getAll\<close>
  returns only records whose \<open>deletedAt\<close> is null, and \<open>getById\<close> looks the record
  up by its id alone (in either spelling of its hexadecimal digits): it returns the
  stored record with that id whether it is soft-deleted or not (a user without its
  password, a reservation with its references resolved).
\<close>

theorem getAll_active_getById_unfiltered:
  "(fst (UserService_getAll s) = Inr us \<longrightarrow> (\<forall>u \<in> set us. deletedAt u = None))
   \<and> (fst (RestaurantService_getAll s) = Inr rs \<longrightarrow> (\<forall>r \<in> set rs. deletedAt r = None))
   \<and> (fst (ReservationService_getAll s) = Inr vs \<longrightarrow> (\<forall>v \<in> set vs. deletedAt (reservation v) = None))
   \<and> (isObjectId i \<and> fault s = None \<longrightarrow>
         fst (UserService_getById i s)
           = Inr (map_option hidePassword (List.find (hasId i) (users s)))
         \<and> fst (RestaurantService_getById i s)
           = Inr (List.find (hasId i) (restaurants s))
         \<and> fst (ReservationService_getById i s)
           = Inr (map_option (populate s) (List.find (hasId i) (reservations s))))"
proof -
  have a: "\<forall>u \<in> set us. deletedAt u = None" if "fst (UserService_getAll s) = Inr us"
    using that
    by (auto simp: UserService_getAll_def UserModel_find_active_def Let_def hidePassword_def
          split: option.splits)
  have b: "\<forall>r \<in> set rs. deletedAt r = None" if "fst (RestaurantService_getAll s) = Inr rs"
    using that
    by (auto simp: RestaurantService_getAll_def RestaurantModel_find_active_def Let_def
          split: option.splits)
  have c: "\<forall>v \<in> set vs. deletedAt (reservation v) = None"
    if "fst (ReservationService_getAll s) = Inr vs"
    using that
    by (auto simp: ReservationService_getAll_def ReservationModel_find_active_populated_def
          Let_def populate_def split: option.splits)
  have d: "fst (UserService_getById i s)
           = Inr (map_option hidePassword (List.find (hasId i) (users s)))"
       "fst (RestaurantService_getById i s)
           = Inr (List.find (hasId i) (restaurants s))"
       "fst (ReservationService_getById i s)
           = Inr (map_option (populate s) (List.find (hasId i) (reservations s)))"
    if "isObjectId i" "fault s = None"
    using that
    by (simp_all add: UserService_getById_def UserModel_findById_def
          RestaurantService_getById_def RestaurantModel_findById_def
          ReservationService_getById_def ReservationModel_findById_populated_def Let_def)
  show ?thesis using a b c d by blast
qed

theorem getAll_active_getById_unfiltered_witness:
  "(let s = \<lparr>users = [\<lparr>doc_id = ''0123456789abcdef01234567'', deletedAt = Some 1700000000000,
                 userName = ''Ana'', email = ''ana@example.com'', password = Some ''hash'',
                 roles = [''user'']\<rparr>,
                \<lparr>doc_id = ''0123456789abcdef01234568'', deletedAt = None,
                 userName = ''Eve'', email = ''eve@example.com'', password = Some ''hash2'',
                 roles = [''admin'']\<rparr>],
              restaurants = [\<lparr>doc_id = ''0123456789abcdef01234567'', deletedAt = Some 1700000000000,
                 restaurantName = ''Otro'', address = ''Calle 1'', city = ''Cali'',
                 nit = ''900'', phone = ''111''\<rparr>,
                \<lparr>doc_id = ''0123456789abcdef01234568'', deletedAt = None,
                 restaurantName = ''Sazon'', address = ''Calle 5'', city = ''Cali'',
                 nit = ''901'', phone = ''555''\<rparr>],
              reservations = [\<lparr>doc_id = ''0123456789abcdef01234567'', deletedAt = Some 1700000000000,
                 date = ''2025-12-24'', hour = ''07:30PM'',
                 restaurantId = ''0123456789abcdef01234568'',
                 userId = ''0123456789abcdef01234568'', userQuantity = 2,
                 status = ''pending''\<rparr>,
                \<lparr>doc_id = ''0123456789abcdef01234568'', deletedAt = None,
                 date = ''2025-12-31'', hour = ''08:00PM'',
                 restaurantId = ''0123456789abcdef01234568'',
                 userId = ''0123456789abcdef01234568'', userQuantity = 4,
                 status = ''confirmed''\<rparr>],
              fault = None, calls = []\<rparr>
    in fst (UserService_getAll s)
         = Inr [\<lparr>doc_id = ''0123456789abcdef01234568'', deletedAt = None,
                 userName = ''Eve'', email = ''eve@example.com'', password = None,
                 roles = [''admin'']\<rparr>]
       \<and> fst (RestaurantService_getAll s)
         = Inr [\<lparr>doc_id = ''0123456789abcdef01234568'', deletedAt = None,
                 restaurantName = ''Sazon'', address = ''Calle 5'', city = ''Cali'',
                 nit = ''901'', phone = ''555''\<rparr>]
       \<and> fst (ReservationService_getAll s)
         = Inr [\<lparr>reservation = \<lparr>doc_id = ''0123456789abcdef01234568'', deletedAt = None,
                 date = ''2025-12-31'', hour = ''08:00PM'',
                 restaurantId = ''0123456789abcdef01234568'',
                 userId = ''0123456789abcdef01234568'', userQuantity = 4,
                 status = ''confirmed''\<rparr>,
                 restaurantRef = Some (''0123456789abcdef01234568'', ''Sazon'', ''Calle 5''),
                 userRef = Some (''0123456789abcdef01234568'', ''Eve'')\<rparr>]
       \<and> isObjectId ''0123456789ABCDEF01234567''
       \<and> fst (UserService_getById ''0123456789ABCDEF01234567'' s)
         = Inr (Some \<lparr>doc_id = ''0123456789abcdef01234567'', deletedAt = Some 1700000000000,
                 userName = ''Ana'', email = ''ana@example.com'', password = None,
                 roles = [''user'']\<rparr>)
       \<and> fst (RestaurantService_getById ''0123456789ABCDEF01234567'' s)
         = Inr (Some \<lparr>doc_id = ''0123456789abcdef01234567'', deletedAt = Some 1700000000000,
                 restaurantName = ''Otro'', address = ''Calle 1'', city = ''Cali'',
                 nit = ''900'', phone = ''111''\<rparr>)
       \<and> fst (ReservationService_getById ''0123456789ABCDEF01234567'' s)
         = Inr (Some \<lparr>reservation = \<lparr>doc_id = ''0123456789abcdef01234567'', deletedAt = Some 1700000000000,
                 date = ''2025-12-24'', hour = ''07:30PM'',
                 restaurantId = ''0123456789abcdef01234568'',
                 userId = ''0123456789abcdef01234568'', userQuantity = 2,
                 status = ''pending''\<rparr>,
                 restaurantRef = Some (''0123456789abcdef01234568'', ''Sazon'', ''Calle 5''),
                 userRef = Some (''0123456789abcdef01234568'', ''Eve'')\<rparr>))"
proof -
  let ?s = "\<lparr>users = [\<lparr>doc_id = ''0123456789abcdef01234567'', deletedAt = Some 1700000000000,
                 userName = ''Ana'', email = ''ana@example.com'', password = Some ''hash'',
                 roles = [''user'']\<rparr>,
                \<lparr>doc_id = ''0123456789abcdef01234568'', deletedAt = None,
                 userName = ''Eve'', email = ''eve@example.com'', password = Some ''hash2'',
                 roles = [''admin'']\<rparr>],
              restaurants = [\<lparr>doc_id = ''0123456789abcdef01234567'', deletedAt = Some 1700000000000,
                 restaurantName = ''Otro'', address = ''Calle 1'', city = ''Cali'',
                 nit = ''900'', phone = ''111''\<rparr>,
                \<lparr>doc_id = ''0123456789abcdef01234568'', deletedAt = None,
                 restaurantName = ''Sazon'', address = ''Calle 5'', city = ''Cali'',
                 nit = ''901'', phone = ''555''\<rparr>],
              reservations = [\<lparr>doc_id = ''0123456789abcdef01234567'', deletedAt = Some 1700000000000,
                 date = ''2025-12-24'', hour = ''07:30PM'',
                 restaurantId = ''0123456789abcdef01234568'',
                 userId = ''0123456789abcdef01234568'', userQuantity = 2,
                 status = ''pending''\<rparr>,
                \<lparr>doc_id = ''0123456789abcdef01234568'', deletedAt = None,
                 date = ''2025-12-31'', hour = ''08:00PM'',
                 restaurantId = ''0123456789abcdef01234568'',
                 userId = ''0123456789abcdef01234568'', userQuantity = 4,
                 status = ''confirmed''\<rparr>],
              fault = None, calls = []\<rparr>"
  have ids:
    "objectIdOf ''0123456789ABCDEF01234567'' = ''0123456789abcdef01234567''"
    "objectIdOf ''0123456789abcdef01234567'' = ''0123456789abcdef01234567''"
    "objectIdOf ''0123456789abcdef01234568'' = ''0123456789abcdef01234568''"
    by (simp_all add: objectIdOf_def toLowerHex_def)
  show ?thesis
    using getAll_active_getById_unfiltered
      [where i = "''0123456789ABCDEF01234567''" and s = ?s
         and us = "[\<lparr>doc_id = ''0123456789abcdef01234568'', deletedAt = None,
                 userName = ''Eve'', email = ''eve@example.com'', password = None,
                 roles = [''admin'']\<rparr>]"
         and rs = "[\<lparr>doc_id = ''0123456789abcdef01234568'', deletedAt = None,
                 restaurantName = ''Sazon'', address = ''Calle 5'', city = ''Cali'',
                 nit = ''901'', phone = ''555''\<rparr>]"
         and vs = "[\<lparr>reservation = \<lparr>doc_id = ''0123456789abcdef01234568'', deletedAt = None,
                 date = ''2025-12-31'', hour = ''08:00PM'',
                 restaurantId = ''0123456789abcdef01234568'',
                 userId = ''0123456789abcdef01234568'', userQuantity = 4,
                 status = ''confirmed''\<rparr>,
                 restaurantRef = Some (''0123456789abcdef01234568'', ''Sazon'', ''Calle 5''),
                 userRef = Some (''0123456789abcdef01234568'', ''Eve'')\<rparr>]"]
    by (simp add: isObjectId_upper hasId_def ids Let_def hidePassword_def populate_def
          UserService_getAll_def UserModel_find_active_def
          RestaurantService_getAll_def RestaurantModel_find_active_def
          ReservationService_getAll_def ReservationModel_find_active_populated_def)
qed

text \<open>
  C5 as stated fails: \<open>getById\<close> of a soft-deleted restaurant, and of a soft-deleted
  user, returns the record.
\<close>

theorem getById_soft_deleted_counterexample:
  "fst (RestaurantService_getById ''0123456789abcdef01234567''
          \<lparr>users = [],
           restaurants = [\<lparr>doc_id = ''0123456789abcdef01234567'', deletedAt = Some 1700000000000,
                           restaurantName = ''Otro'', address = ''Calle 1'', city = ''Cali'',
                           nit = ''900'', phone = ''111''\<rparr>],
           reservations = [], fault = None, calls = []\<rparr>)
     = Inr (Some \<lparr>doc_id = ''0123456789abcdef01234567'', deletedAt = Some 1700000000000,
                  restaurantName = ''Otro'', address = ''Calle 1'', city = ''Cali'',
                  nit = ''900'', phone = ''111''\<rparr>)
   \<and> fst (UserService_getById ''0123456789abcdef01234567''
          \<lparr>users = [\<lparr>doc_id = ''0123456789abcdef01234567'', deletedAt = Some 1700000000000,
                     userName = ''Ana'', email = ''ana@example.com'', password = Some ''hash'',
                     roles = [''user'']\<rparr>],
           restaurants = [], reservations = [], fault = None, calls = []\<rparr>)
     = Inr (Some \<lparr>doc_id = ''0123456789abcdef01234567'', deletedAt = Some 1700000000000,
                  userName = ''Ana'', email = ''ana@example.com'', password = None,
                  roles = [''user'']\<rparr>)"
  by (simp add: RestaurantService_getById_def RestaurantModel_findById_def
        UserService_getById_def UserModel_findById_def hidePassword_def logged_def Let_def
        isObjectId_sample hasId_def)

subsection \<open>C6: the order of the existence checks of a reservation\<close>

text \<open>
  C6, as the code has it. Ids are compared as ObjectIds. When the user id of the input
  is a well-formed id of no stored user, \<open>create\<close> fails with "User not found", whatever the restaurant
  reference and the restaurant collection are (a malformed restaurant id included): the
  only model call made is the user lookup. A malformed user id fails in the same place
  with the cast error of the lookup instead. When the user is stored and the restaurant
  id is a well-formed id of no stored restaurant, it fails with "Restaurant not found"
  after the two lookups. In each case the store is the one before the call but for the
  call log: no reservation is created.
\<close>

theorem ReservationService_create_checks:
  "(fault s = None \<and> in_userId inp = Some k \<and> isObjectId k
      \<and> List.find (hasId k) (users s) = None \<longrightarrow>
      (\<forall>r rs. ReservationService_create dc (inp\<lparr>in_restaurantId := r\<rparr>) fresh (s\<lparr>restaurants := rs\<rparr>)
         = (Inl (ReferenceError ''User not found''),
            s\<lparr>restaurants := rs, calls := calls s @ [Call Users FindById]\<rparr>)))
   \<and> (in_userId inp = Some k \<and> \<not> isObjectId k \<longrightarrow>
      (\<forall>r rs. ReservationService_create dc (inp\<lparr>in_restaurantId := r\<rparr>) fresh (s\<lparr>restaurants := rs\<rparr>)
         = (Inl (CastError k),
            s\<lparr>restaurants := rs, calls := calls s @ [Call Users FindById]\<rparr>)))
   \<and> (fault s = None \<and> in_userId inp = Some k \<and> isObjectId k
      \<and> List.find (hasId k) (users s) = Some u
      \<and> in_restaurantId inp = Some j \<and> isObjectId j
      \<and> List.find (hasId j) (restaurants s) = None \<longrightarrow>
      ReservationService_create dc inp fresh s
         = (Inl (ReferenceError ''Restaurant not found''),
            s\<lparr>calls := calls s @ [Call Users FindById, Call Restaurants FindById]\<rparr>))"
  by (simp add: ReservationService_create_def UserModel_findById_def
        RestaurantModel_findById_def logged_def Let_def)

theorem ReservationService_create_checks_witness:
  "isObjectId ''0123456789abcdef01234567''
   \<and> ReservationService_create (\<lambda>d. True)
        \<lparr>in_date = Some ''2025-12-24'', in_hour = Some ''07:30PM'',
         in_restaurantId = Some ''not-an-id'', in_userId = Some ''0123456789abcdef01234567'',
         in_userQuantity = Some 2, in_status = Some ''pending''\<rparr>
        ''0123456789abcdef01234569''
        \<lparr>users = [], restaurants = [], reservations = [], fault = None, calls = []\<rparr>
      = (Inl (ReferenceError ''User not found''),
         \<lparr>users = [], restaurants = [], reservations = [], fault = None,
          calls = [Call Users FindById]\<rparr>)
   \<and> \<not> isObjectId ''abc''
   \<and> ReservationService_create (\<lambda>d. True)
        \<lparr>in_date = Some ''2025-12-24'', in_hour = Some ''07:30PM'',
         in_restaurantId = Some ''not-an-id'', in_userId = Some ''abc'',
         in_userQuantity = Some 2, in_status = Some ''pending''\<rparr>
        ''0123456789abcdef01234569''
        \<lparr>users = [], restaurants = [], reservations = [], fault = None, calls = []\<rparr>
      = (Inl (CastError ''abc''),
         \<lparr>users = [], restaurants = [], reservations = [], fault = None,
          calls = [Call Users FindById]\<rparr>)
   \<and> isObjectId ''0123456789ABCDEF01234567''
   \<and> ReservationService_create (\<lambda>d. True)
        \<lparr>in_date = Some ''2025-12-24'', in_hour = Some ''07:30PM'',
         in_restaurantId = Some ''0123456789abcdef01234567'', in_userId = Some ''0123456789ABCDEF01234567'',
         in_userQuantity = Some 2, in_status = Some ''pending''\<rparr>
        ''0123456789abcdef01234569''
        \<lparr>users = [\<lparr>doc_id = ''0123456789abcdef01234567'', deletedAt = None, userName = ''Ana'',
                   email = ''ana@example.com'', password = Some ''hash'', roles = [''user'']\<rparr>],
         restaurants = [], reservations = [], fault = None, calls = []\<rparr>
      = (Inl (ReferenceError ''Restaurant not found''),
         \<lparr>users = [\<lparr>doc_id = ''0123456789abcdef01234567'', deletedAt = None, userName = ''Ana'',
                   email = ''ana@example.com'', password = Some ''hash'', roles = [''user'']\<rparr>],
          restaurants = [], reservations = [], fault = None,
          calls = [Call Users FindById, Call Restaurants FindById]\<rparr>)"
  using ReservationService_create_checks
    [where k = "''0123456789abcdef01234567''"
       and fresh = "''0123456789abcdef01234569''" and dc = "\<lambda>d. True"
       and inp = "\<lparr>in_date = Some ''2025-12-24'', in_hour = Some ''07:30PM'',
         in_restaurantId = None, in_userId = Some ''0123456789abcdef01234567'',
         in_userQuantity = Some 2, in_status = Some ''pending''\<rparr>"
       and s = "\<lparr>users = [], restaurants = [], reservations = [], fault = None, calls = []\<rparr>",
     THEN conjunct1, rule_format, of "Some ''not-an-id''" "[]"]
    ReservationService_create_checks
    [where k = "''abc''"
       and fresh = "''0123456789abcdef01234569''" and dc = "\<lambda>d. True"
       and inp = "\<lparr>in_date = Some ''2025-12-24'', in_hour = Some ''07:30PM'',
         in_restaurantId = None, in_userId = Some ''abc'',
         in_userQuantity = Some 2, in_status = Some ''pending''\<rparr>"
       and s = "\<lparr>users = [], restaurants = [], reservations = [], fault = None, calls = []\<rparr>",
     THEN conjunct2, THEN conjunct1, rule_format, of "Some ''not-an-id''" "[]"]
    ReservationService_create_checks
    [where k = "''0123456789ABCDEF01234567''" and j = "''0123456789abcdef01234567''"
       and fresh = "''0123456789abcdef01234569''" and dc = "\<lambda>d. True"
       and u = "\<lparr>doc_id = ''0123456789abcdef01234567'', deletedAt = None, userName = ''Ana'',
                   email = ''ana@example.com'', password = Some ''hash'', roles = [''user'']\<rparr>"
       and inp = "\<lparr>in_date = Some ''2025-12-24'', in_hour = Some ''07:30PM'',
         in_restaurantId = Some ''0123456789abcdef01234567'', in_userId = Some ''0123456789ABCDEF01234567'',
         in_userQuantity = Some 2, in_status = Some ''pending''\<rparr>"
       and s = "\<lparr>users = [\<lparr>doc_id = ''0123456789abcdef01234567'', deletedAt = None, userName = ''Ana'',
                   email = ''ana@example.com'', password = Some ''hash'', roles = [''user'']\<rparr>],
         restaurants = [], reservations = [], fault = None, calls = []\<rparr>",
     THEN conjunct2, THEN conjunct2]
  by (simp add: isObjectId_sample isObjectId_short isObjectId_upper hasId_def objectIdOf_upper)

text \<open>
  C6 as stated fails for a user id that is malformed: no user has it, and the error is
  the cast error of the lookup, not "User not found".
\<close>

theorem ReservationService_create_malformed_user_counterexample:
  "ReservationService_create (\<lambda>d. True)
        \<lparr>in_date = Some ''2025-12-24'', in_hour = Some ''07:30PM'',
         in_restaurantId = Some ''0123456789abcdef01234567'', in_userId = Some ''abc'',
         in_userQuantity = Some 2, in_status = Some ''pending''\<rparr>
        ''0123456789abcdef01234569''
        \<lparr>users = [], restaurants = [], reservations = [], fault = None, calls = []\<rparr>
      = (Inl (CastError ''abc''),
         \<lparr>users = [], restaurants = [], reservations = [], fault = None,
          calls = [Call Users FindById]\<rparr>)"
  by (simp add: ReservationService_create_def UserModel_findById_def logged_def Let_def
        isObjectId_def)

subsection \<open>C8: the answers of the login route\<close>

text \<open>
  C8, as the code has it. With the email of a stored user, a matching password and the
  token signed, the answer is 200 with the body \<open>{token: {id, roles, token}}\<close>, the
  signed token nested under the outer \<open>token\<close> key. With an unknown email, or a
  password that does not match, it is 401 with the body
  \<open>{message: "Not Authorized"}\<close>, which has no \<open>token\<close> field. Every other failure
  of the service (the store fails, the password comparison or the signing throws) is
  answered by the class of the error alone: 500 with the fixed message
  "Internal server error" when it is not a \<open>ReferenceError\<close>, and 401 with the
  error's own message when it is one.
\<close>

theorem AuthController_login_responses:
  "(fault s = None \<and> List.find (\<lambda>u. email u = login_email b) (users s) = Some u
      \<and> password u = Some h \<and> cmp (login_password b) h = Inr True
      \<and> sign (doc_id u, roles u) (secretKey env) ''1h'' = Inr signed \<longrightarrow>
      fst (AuthController_login cmp sign env b s)
        = [(200, Json (JObj [(''token'',
              JObj [(''id'', JStr (doc_id u)),
                    (''roles'', JArr (map JStr (roles u))),
                    (''token'', JStr signed)])]))])
   \<and> (fault s = None \<and> List.find (\<lambda>u. email u = login_email b) (users s) = None \<longrightarrow>
      fst (AuthController_login cmp sign env b s)
        = [(401, Json (JObj [(''message'', JStr ''Not Authorized'')]))])
   \<and> (fault s = None \<and> List.find (\<lambda>u. email u = login_email b) (users s) = Some u
      \<and> password u = Some h \<and> cmp (login_password b) h = Inr False \<longrightarrow>
      fst (AuthController_login cmp sign env b s)
        = [(401, Json (JObj [(''message'', JStr ''Not Authorized'')]))])
   \<and> (fst (AuthService_login cmp sign env b s) = Inl e \<longrightarrow>
      fst (AuthController_login cmp sign env b s)
        = (if isReferenceError e
           then [(401, Json (JObj [(''message'', JStr (error_message e))]))]
           else [(500, Json (JObj [(''message'', JStr ''Internal server error'')]))]))
   \<and> (fault s = Some e \<longrightarrow> fst (AuthService_login cmp sign env b s) = Inl e)
   \<and> (fault s = None \<and> List.find (\<lambda>u. email u = login_email b) (users s) = Some u
      \<and> password u = Some h \<and> cmp (login_password b) h = Inl e \<longrightarrow>
      fst (AuthService_login cmp sign env b s) = Inl e)
   \<and> (fault s = None \<and> List.find (\<lambda>u. email u = login_email b) (users s) = Some u
      \<and> password u = Some h \<and> cmp (login_password b) h = Inr True
      \<and> sign (doc_id u, roles u) (secretKey env) ''1h'' = Inl e \<longrightarrow>
      fst (AuthService_login cmp sign env b s) = Inl e)"
  by (auto simp: AuthController_login_def AuthService_login_def AuthService_generateToken_def
        UserService_findByEmail_def UserModel_findOne_email_def loginBody_def message_def
        logged_def Let_def split: prod.splits sum.splits option.splits)

theorem AuthController_login_responses_witness:
  "(let s = \<lparr>users = [\<lparr>doc_id = ''0123456789abcdef01234567'', deletedAt = None, userName = ''Ana'',
                    email = ''ana@example.com'', password = Some ''hash:Secreto1'',
                    roles = [''user'']\<rparr>],
              restaurants = [], reservations = [], fault = None, calls = []\<rparr>;
        cmp = (\<lambda>plain h. Inr (h = ''hash:'' @ plain));
        sign = (\<lambda>payload secret expiresIn. Inr ''signed'')
    in fst (AuthController_login cmp sign None
              \<lparr>login_email = ''ana@example.com'', login_password = ''Secreto1''\<rparr> s)
         = [(200, Json (JObj [(''token'',
               JObj [(''id'', JStr ''0123456789abcdef01234567''),
                     (''roles'', JArr [JStr ''user'']),
                     (''token'', JStr ''signed'')])]))]
       \<and> fst (AuthController_login cmp sign None
              \<lparr>login_email = ''eve@example.com'', login_password = ''Secreto1''\<rparr> s)
         = [(401, Json (JObj [(''message'', JStr ''Not Authorized'')]))]
       \<and> fst (AuthController_login cmp sign None
              \<lparr>login_email = ''ana@example.com'', login_password = ''wrong''\<rparr> s)
         = [(401, Json (JObj [(''message'', JStr ''Not Authorized'')]))]
       \<and> fst (AuthController_login cmp sign None
              \<lparr>login_email = ''ana@example.com'', login_password = ''Secreto1''\<rparr>
              (s\<lparr>fault := Some (JsError ''connection lost'')\<rparr>))
         = [(500, Json (JObj [(''message'', JStr ''Internal server error'')]))]
       \<and> fst (AuthController_login (\<lambda>plain h. Inl (JsError ''Illegal arguments'')) sign None
              \<lparr>login_email = ''ana@example.com'', login_password = ''Secreto1''\<rparr> s)
         = [(500, Json (JObj [(''message'', JStr ''Internal server error'')]))]
       \<and> fst (AuthController_login cmp
              (\<lambda>payload secret expiresIn. Inl (ReferenceError ''Token generation failed'')) None
              \<lparr>login_email = ''ana@example.com'', login_password = ''Secreto1''\<rparr> s)
         = [(401, Json (JObj [(''message'', JStr ''Token generation failed'')]))])"
proof -
  let ?cmp = "\<lambda>plain h. (Inr (h = ''hash:'' @ plain) :: error + bool)"
  let ?sign = "\<lambda>(payload :: string \<times> string list) (secret :: string) (expiresIn :: string).
                 (Inr ''signed'' :: error + string)"
  let ?bad = "\<lambda>(payload :: string \<times> string list) (secret :: string) (expiresIn :: string).
                 (Inl (ReferenceError ''Token generation failed'') :: error + string)"
  let ?u = "\<lparr>doc_id = ''0123456789abcdef01234567'', deletedAt = None, userName = ''Ana'',
                    email = ''ana@example.com'', password = Some ''hash:Secreto1'',
                    roles = [''user'']\<rparr>"
  let ?s = "\<lparr>users = [?u], restaurants = [], reservations = [], fault = None, calls = []\<rparr>"
  let ?ok = "\<lparr>login_email = ''ana@example.com'', login_password = ''Secreto1''\<rparr>"
  note t = AuthController_login_responses [where env = None and u = ?u and h = "''hash:Secreto1''"]
  have a: "fst (AuthController_login ?cmp ?sign None ?ok ?s)
     = [(200, Json (JObj [(''token'',
           JObj [(''id'', JStr ''0123456789abcdef01234567''),
                 (''roles'', JArr [JStr ''user'']),
                 (''token'', JStr ''signed'')])]))]"
    using t [where cmp = ?cmp and sign = ?sign and b = ?ok and s = ?s and signed = "''signed''"]
    by simp
  have b: "fst (AuthController_login ?cmp ?sign None
            \<lparr>login_email = ''eve@example.com'', login_password = ''Secreto1''\<rparr> ?s)
     = [(401, Json (JObj [(''message'', JStr ''Not Authorized'')]))]"
    using t [where cmp = ?cmp and sign = ?sign and s = ?s
               and b = "\<lparr>login_email = ''eve@example.com'', login_password = ''Secreto1''\<rparr>"]
    by simp
  have c: "fst (AuthController_login ?cmp ?sign None
            \<lparr>login_email = ''ana@example.com'', login_password = ''wrong''\<rparr> ?s)
     = [(401, Json (JObj [(''message'', JStr ''Not Authorized'')]))]"
    using t [where cmp = ?cmp and sign = ?sign and s = ?s
               and b = "\<lparr>login_email = ''ana@example.com'', login_password = ''wrong''\<rparr>"]
    by simp
  have d: "fst (AuthController_login ?cmp ?sign None ?ok (?s\<lparr>fault := Some (JsError ''connection lost'')\<rparr>))
     = [(500, Json (JObj [(''message'', JStr ''Internal server error'')]))]"
    using t [where cmp = ?cmp and sign = ?sign and b = ?ok
               and s = "?s\<lparr>fault := Some (JsError ''connection lost'')\<rparr>"
               and e = "JsError ''connection lost''"]
    by simp
  have e: "fst (AuthController_login (\<lambda>plain h. Inl (JsError ''Illegal arguments'')) ?sign None ?ok ?s)
     = [(500, Json (JObj [(''message'', JStr ''Internal server error'')]))]"
    using t [where cmp = "\<lambda>plain h. Inl (JsError ''Illegal arguments'')" and sign = ?sign
               and b = ?ok and s = ?s and e = "JsError ''Illegal arguments''"]
    by simp
  have f: "fst (AuthController_login ?cmp ?bad None ?ok ?s)
     = [(401, Json (JObj [(''message'', JStr ''Token generation failed'')]))]"
    using t [where cmp = ?cmp and sign = ?bad and b = ?ok and s = ?s
               and e = "ReferenceError ''Token generation failed''"]
    by simp
  show ?thesis using a b c d e f by (simp add: Let_def)
qed

text \<open>
  C8 as stated fails: a failure that is neither an unknown email nor a password that
  does not match, here the signing of the token throwing a \<open>ReferenceError\<close>, is
  answered 401 with the message of the error, not 500 with the fixed message.
\<close>

theorem AuthController_login_other_ReferenceError_counterexample:
  "fst (AuthController_login (\<lambda>plain h. Inr (h = ''hash:'' @ plain))
          (\<lambda>payload secret expiresIn. Inl (ReferenceError ''Token generation failed'')) None
          \<lparr>login_email = ''ana@example.com'', login_password = ''Secreto1''\<rparr>
          \<lparr>users = [\<lparr>doc_id = ''0123456789abcdef01234567'', deletedAt = None, userName = ''Ana'',
                    email = ''ana@example.com'', password = Some ''hash:Secreto1'',
                    roles = [''user'']\<rparr>],
           restaurants = [], reservations = [], fault = None, calls = []\<rparr>)
     = [(401, Json (JObj [(''message'', JStr ''Token generation failed'')]))]"
  by (simp add: AuthController_login_def AuthService_login_def AuthService_generateToken_def
        UserService_findByEmail_def UserModel_findOne_email_def message_def logged_def Let_def)

subsection \<open>C9: reference ids are not validated on \<open>POST /api/reservations\<close>\<close>

text \<open>
  C9. The validation rules of the create route read \<open>date\<close>, \<open>hour\<close>,
  \<open>userQuantity\<close> and \<open>status\<close> only: the failures they report do not depend on
  \<open>userId\<close> and \<open>restaurantId\<close> and name no other field. So a body that passes them
  with a malformed user id reaches the user lookup of the service, whose cast error is
  answered 500; the same holds for a malformed restaurant id once the user is found.
\<close>

theorem post_reservations_malformed_reference:
  "fst (reservationValidations_create validDate (b\<lparr>in_userId := x, in_restaurantId := y\<rparr>))
     = fst (reservationValidations_create validDate b)
   \<and> (\<forall>e \<in> set (fst (reservationValidations_create validDate b)).
         fst e \<in> {''date'', ''hour'', ''userQuantity'', ''status''})
   \<and> (fst (reservationValidations_create validDate b) = [] \<and> in_userId b = Some k \<and> \<not> isObjectId k \<longrightarrow>
        post_reservations validDate dc b fresh s
          = ([(500, Raw (CastError k))], s\<lparr>calls := calls s @ [Call Users FindById]\<rparr>))
   \<and> (fst (reservationValidations_create validDate b) = [] \<and> fault s = None
        \<and> in_userId b = Some k \<and> isObjectId k
        \<and> List.find (hasId k) (users s) = Some u
        \<and> in_restaurantId b = Some j \<and> \<not> isObjectId j \<longrightarrow>
        post_reservations validDate dc b fresh s
          = ([(500, Raw (CastError j))],
             s\<lparr>calls := calls s @ [Call Users FindById, Call Restaurants FindById]\<rparr>))"
proof -
  have a: "fst (reservationValidations_create validDate (b\<lparr>in_userId := x, in_restaurantId := y\<rparr>))
     = fst (reservationValidations_create validDate b)"
    by (simp add: reservationValidations_create_def Let_def)
  have b: "\<forall>e \<in> set (fst (reservationValidations_create validDate b)).
         fst e \<in> {''date'', ''hour'', ''userQuantity'', ''status''}"
    by (simp add: reservationValidations_create_def Let_def)
  have c: "post_reservations validDate dc b fresh s
          = ([(500, Raw (CastError k))], s\<lparr>calls := calls s @ [Call Users FindById]\<rparr>)"
    if "fst (reservationValidations_create validDate b) = []" "in_userId b = Some k" "\<not> isObjectId k"
  proof -
    define b1 where "b1 = snd (reservationValidations_create validDate b)"
    have v: "reservationValidations_create validDate b = ([], b1)"
      using that(1) by (simp add: b1_def prod_eq_iff)
    have u: "in_userId b1 = Some k"
      using v that(2) by (auto simp: reservationValidations_create_def Let_def)
    show ?thesis
      using that(3) u
      by (simp add: post_reservations_def v handleValidationErrors_def
            ReservationController_create_def ReservationService_create_def
            UserModel_findById_def logged_def Let_def)
  qed
  have d: "post_reservations validDate dc b fresh s
          = ([(500, Raw (CastError j))],
             s\<lparr>calls := calls s @ [Call Users FindById, Call Restaurants FindById]\<rparr>)"
    if "fst (reservationValidations_create validDate b) = []" "fault s = None"
       "in_userId b = Some k" "isObjectId k"
       "List.find (hasId k) (users s) = Some u"
       "in_restaurantId b = Some j" "\<not> isObjectId j"
  proof -
    define b1 where "b1 = snd (reservationValidations_create validDate b)"
    have v: "reservationValidations_create validDate b = ([], b1)"
      using that(1) by (simp add: b1_def prod_eq_iff)
    have u: "in_userId b1 = Some k" "in_restaurantId b1 = Some j"
      using v that(3,6) by (auto simp: reservationValidations_create_def Let_def)
    show ?thesis
      using that(2,4,5,7) u
      by (simp add: post_reservations_def v handleValidationErrors_def
            ReservationController_create_def ReservationService_create_def
            UserModel_findById_def RestaurantModel_findById_def logged_def Let_def)
  qed
  show ?thesis using a b c d by blast
qed

theorem post_reservations_malformed_reference_witness:
  "fst (reservationValidations_create (\<lambda>d. d = ''2025-12-24'')
          \<lparr>in_date = Some ''2025-12-24'', in_hour = Some ''07:30PM'',
           in_restaurantId = Some ''xyz'', in_userId = Some ''abc'',
           in_userQuantity = Some 2, in_status = Some ''pending''\<rparr>) = []
   \<and> \<not> isObjectId ''abc''
   \<and> post_reservations (\<lambda>d. d = ''2025-12-24'') (\<lambda>d. True)
          \<lparr>in_date = Some ''2025-12-24'', in_hour = Some ''07:30PM'',
           in_restaurantId = Some ''xyz'', in_userId = Some ''abc'',
           in_userQuantity = Some 2, in_status = Some ''pending''\<rparr>
          ''0123456789abcdef01234569''
          \<lparr>users = [], restaurants = [], reservations = [], fault = None, calls = []\<rparr>
       = ([(500, Raw (CastError ''abc''))],
          \<lparr>users = [], restaurants = [], reservations = [], fault = None,
           calls = [Call Users FindById]\<rparr>)"
  using post_reservations_malformed_reference
    [where validDate = "\<lambda>d. d = ''2025-12-24''" and k = "''abc''"
       and fresh = "''0123456789abcdef01234569''" and dc = "\<lambda>d. True"
       and b = "\<lparr>in_date = Some ''2025-12-24'', in_hour = Some ''07:30PM'',
           in_restaurantId = Some ''xyz'', in_userId = Some ''abc'',
           in_userQuantity = Some 2, in_status = Some ''pending''\<rparr>"
       and s = "\<lparr>users = [], restaurants = [], reservations = [], fault = None, calls = []\<rparr>"]
  by (simp add: isObjectId_def reservationValidations_create_def Let_def trim_def isSpace_def
        isLength_def matchesHour_def fieldText_def)

subsection \<open>C10: deleting a record again\<close>

text \<open>
  C10. For a stored restaurant, soft-deleted already or not, \<open>delete\<close> returns true
  and sets \<open>deletedAt\<close> to the current time, and the controller answers 204; a second
  \<open>DELETE\<close> of the same id answers 204 again, never 404, and overwrites the stamp
  with the later time. The services of users and reservations do the same, and so does
  the reservation controller.
\<close>

theorem delete_again:
  assumes "isObjectId i" and "fault s = None"
  shows
  "(List.find (hasId i) (restaurants s) = Some r \<longrightarrow>
      fst (RestaurantService_delete i now s) = Inr True
      \<and> List.find (hasId i) (restaurants (snd (RestaurantService_delete i now s)))
          = Some (r\<lparr>deletedAt := Some now\<rparr>)
      \<and> fst (RestaurantController_delete i now s) = [(204, NoBody)]
      \<and> fst (RestaurantController_delete i later (snd (RestaurantController_delete i now s)))
          = [(204, NoBody)]
      \<and> List.find (hasId i)
           (restaurants (snd (RestaurantController_delete i later
                               (snd (RestaurantController_delete i now s)))))
          = Some (r\<lparr>deletedAt := Some later\<rparr>))
   \<and> (List.find (hasId i) (users s) = Some u \<longrightarrow>
      fst (UserService_delete i now s) = Inr True
      \<and> List.find (hasId i) (users (snd (UserService_delete i now s)))
          = Some (u\<lparr>deletedAt := Some now\<rparr>)
      \<and> fst (UserService_delete i later (snd (UserService_delete i now s))) = Inr True
      \<and> List.find (hasId i)
           (users (snd (UserService_delete i later (snd (UserService_delete i now s)))))
          = Some (u\<lparr>deletedAt := Some later\<rparr>))
   \<and> (List.find (hasId i) (reservations s) = Some v \<longrightarrow>
      fst (ReservationService_delete i now s) = Inr True
      \<and> List.find (hasId i) (reservations (snd (ReservationService_delete i now s)))
          = Some (v\<lparr>deletedAt := Some now\<rparr>)
      \<and> fst (ReservationController_delete i now s) = [(204, NoBody)]
      \<and> fst (ReservationController_delete i later (snd (ReservationController_delete i now s)))
          = [(204, NoBody)]
      \<and> List.find (hasId i)
           (reservations (snd (ReservationController_delete i later
                                (snd (ReservationController_delete i now s)))))
          = Some (v\<lparr>deletedAt := Some later\<rparr>))"
proof (intro conjI impI)
  assume f: "List.find (hasId i) (restaurants s) = Some r"
  note d1 = RestaurantService_delete_found [OF assms f, of now]
  let ?s1 = "snd (RestaurantService_delete i now s)"
  have f1: "List.find (hasId i) (restaurants ?s1) = Some (r\<lparr>deletedAt := Some now\<rparr>)"
    by (simp add: d1 f find_updateFirst)
  have ok1: "fault ?s1 = None"
    by (simp add: d1 assms)
  note d2 = RestaurantService_delete_found [OF assms(1) ok1 f1, of later]
  have c1: "RestaurantController_delete i now s = ([(204, NoBody)], ?s1)"
    by (simp add: RestaurantController_delete_def d1)
  have c2: "RestaurantController_delete i later ?s1
      = ([(204, NoBody)], snd (RestaurantService_delete i later ?s1))"
    by (simp add: RestaurantController_delete_def d2)
  show "fst (RestaurantService_delete i now s) = Inr True"
    by (simp add: d1)
  show "List.find (hasId i) (restaurants (snd (RestaurantService_delete i now s)))
          = Some (r\<lparr>deletedAt := Some now\<rparr>)"
    by (rule f1)
  show "fst (RestaurantController_delete i now s) = [(204, NoBody)]"
    by (simp add: c1)
  show "fst (RestaurantController_delete i later (snd (RestaurantController_delete i now s)))
          = [(204, NoBody)]"
    by (simp add: c1 c2)
  show "List.find (hasId i)
           (restaurants (snd (RestaurantController_delete i later
                               (snd (RestaurantController_delete i now s)))))
          = Some (r\<lparr>deletedAt := Some later\<rparr>)"
    unfolding c1 snd_conv c2 by (simp add: d2 f1 find_updateFirst)
next
  assume f: "List.find (hasId i) (users s) = Some u"
  note d1 = UserService_delete_found [OF assms f, of now]
  let ?s1 = "snd (UserService_delete i now s)"
  have f1: "List.find (hasId i) (users ?s1) = Some (u\<lparr>deletedAt := Some now\<rparr>)"
    by (simp add: d1 f find_updateFirst)
  have ok1: "fault ?s1 = None"
    by (simp add: d1 assms)
  note d2 = UserService_delete_found [OF assms(1) ok1 f1, of later]
  show "fst (UserService_delete i now s) = Inr True"
    by (simp add: d1)
  show "List.find (hasId i) (users (snd (UserService_delete i now s)))
          = Some (u\<lparr>deletedAt := Some now\<rparr>)"
    by (rule f1)
  show "fst (UserService_delete i later (snd (UserService_delete i now s))) = Inr True"
    by (simp add: d2)
  show "List.find (hasId i)
           (users (snd (UserService_delete i later (snd (UserService_delete i now s)))))
          = Some (u\<lparr>deletedAt := Some later\<rparr>)"
    by (simp add: d2 f1 find_updateFirst)
next
  assume f: "List.find (hasId i) (reservations s) = Some v"
  note d1 = ReservationService_delete_found [OF assms f, of now]
  let ?s1 = "snd (ReservationService_delete i now s)"
  have f1: "List.find (hasId i) (reservations ?s1) = Some (v\<lparr>deletedAt := Some now\<rparr>)"
    by (simp add: d1 f find_updateFirst)
  have ok1: "fault ?s1 = None"
    by (simp add: d1 assms)
  note d2 = ReservationService_delete_found [OF assms(1) ok1 f1, of later]
  have c1: "ReservationController_delete i now s = ([(204, NoBody)], ?s1)"
    by (simp add: ReservationController_delete_def d1)
  have c2: "ReservationController_delete i later ?s1
      = ([(204, NoBody)], snd (ReservationService_delete i later ?s1))"
    by (simp add: ReservationController_delete_def d2)
  show "fst (ReservationService_delete i now s) = Inr True"
    by (simp add: d1)
  show "List.find (hasId i) (reservations (snd (ReservationService_delete i now s)))
          = Some (v\<lparr>deletedAt := Some now\<rparr>)"
    by (rule f1)
  show "fst (ReservationController_delete i now s) = [(204, NoBody)]"
    by (simp add: c1)
  show "fst (ReservationController_delete i later (snd (ReservationController_delete i now s)))
          = [(204, NoBody)]"
    by (simp add: c1 c2)
  show "List.find (hasId i)
           (reservations (snd (ReservationController_delete i later
                                (snd (ReservationController_delete i now s)))))
          = Some (v\<lparr>deletedAt := Some later\<rparr>)"
    unfolding c1 snd_conv c2 by (simp add: d2 f1 find_updateFirst)
qed

theorem delete_again_witness:
  "isObjectId ''0123456789abcdef01234567''
   \<and> fst (RestaurantController_delete ''0123456789abcdef01234567'' 1700000005000
          \<lparr>users = [\<lparr>doc_id = ''0123456789abcdef01234567'', deletedAt = None, userName = ''Ana'',
                     email = ''ana@example.com'', password = Some ''hash'', roles = [''user'']\<rparr>],
           restaurants = [\<lparr>doc_id = ''0123456789abcdef01234567'', deletedAt = Some 1700000000000,
                           restaurantName = ''Otro'', address = ''Calle 1'', city = ''Cali'',
                           nit = ''900'', phone = ''111''\<rparr>],
           reservations = [\<lparr>doc_id = ''0123456789abcdef01234567'', deletedAt = Some 1700000000000,
                            date = ''2025-12-24'', hour = ''07:30PM'',
                            restaurantId = ''0123456789abcdef01234567'',
                            userId = ''0123456789abcdef01234567'', userQuantity = 2,
                            status = ''pending''\<rparr>],
           fault = None, calls = []\<rparr>) = [(204, NoBody)]
   \<and> List.find (hasId ''0123456789abcdef01234567'')
        (restaurants (snd (RestaurantService_delete ''0123456789abcdef01234567'' 1700000005000
          \<lparr>users = [\<lparr>doc_id = ''0123456789abcdef01234567'', deletedAt = None, userName = ''Ana'',
                     email = ''ana@example.com'', password = Some ''hash'', roles = [''user'']\<rparr>],
           restaurants = [\<lparr>doc_id = ''0123456789abcdef01234567'', deletedAt = Some 1700000000000,
                           restaurantName = ''Otro'', address = ''Calle 1'', city = ''Cali'',
                           nit = ''900'', phone = ''111''\<rparr>],
           reservations = [\<lparr>doc_id = ''0123456789abcdef01234567'', deletedAt = Some 1700000000000,
                            date = ''2025-12-24'', hour = ''07:30PM'',
                            restaurantId = ''0123456789abcdef01234567'',
                            userId = ''0123456789abcdef01234567'', userQuantity = 2,
                            status = ''pending''\<rparr>],
           fault = None, calls = []\<rparr>)))
       = Some \<lparr>doc_id = ''0123456789abcdef01234567'', deletedAt = Some 1700000005000,
                restaurantName = ''Otro'', address = ''Calle 1'', city = ''Cali'',
                nit = ''900'', phone = ''111''\<rparr>
   \<and> fst (UserService_delete ''0123456789abcdef01234567'' 1700000005000
          \<lparr>users = [\<lparr>doc_id = ''0123456789abcdef01234567'', deletedAt = None, userName = ''Ana'',
                     email = ''ana@example.com'', password = Some ''hash'', roles = [''user'']\<rparr>],
           restaurants = [\<lparr>doc_id = ''0123456789abcdef01234567'', deletedAt = Some 1700000000000,
                           restaurantName = ''Otro'', address = ''Calle 1'', city = ''Cali'',
                           nit = ''900'', phone = ''111''\<rparr>],
           reservations = [\<lparr>doc_id = ''0123456789abcdef01234567'', deletedAt = Some 1700000000000,
                            date = ''2025-12-24'', hour = ''07:30PM'',
                            restaurantId = ''0123456789abcdef01234567'',
                            userId = ''0123456789abcdef01234567'', userQuantity = 2,
                            status = ''pending''\<rparr>],
           fault = None, calls = []\<rparr>) = Inr True
   \<and> fst (ReservationController_delete ''0123456789abcdef01234567'' 1700000005000
          \<lparr>users = [\<lparr>doc_id = ''0123456789abcdef01234567'', deletedAt = None, userName = ''Ana'',
                     email = ''ana@example.com'', password = Some ''hash'', roles = [''user'']\<rparr>],
           restaurants = [\<lparr>doc_id = ''0123456789abcdef01234567'', deletedAt = Some 1700000000000,
                           restaurantName = ''Otro'', address = ''Calle 1'', city = ''Cali'',
                           nit = ''900'', phone = ''111''\<rparr>],
           reservations = [\<lparr>doc_id = ''0123456789abcdef01234567'', deletedAt = Some 1700000000000,
                            date = ''2025-12-24'', hour = ''07:30PM'',
                            restaurantId = ''0123456789abcdef01234567'',
                            userId = ''0123456789abcdef01234567'', userQuantity = 2,
                            status = ''pending''\<rparr>],
           fault = None, calls = []\<rparr>) = [(204, NoBody)]"
  using delete_again
    [where i = "''0123456789abcdef01234567''" and now = 1700000005000 and later = 1700000009000
       and r = "\<lparr>doc_id = ''0123456789abcdef01234567'', deletedAt = Some 1700000000000,
                           restaurantName = ''Otro'', address = ''Calle 1'', city = ''Cali'',
                           nit = ''900'', phone = ''111''\<rparr>"
       and u = "\<lparr>doc_id = ''0123456789abcdef01234567'', deletedAt = None, userName = ''Ana'',
                     email = ''ana@example.com'', password = Some ''hash'', roles = [''user'']\<rparr>"
       and v = "\<lparr>doc_id = ''0123456789abcdef01234567'', deletedAt = Some 1700000000000,
                            date = ''2025-12-24'', hour = ''07:30PM'',
                            restaurantId = ''0123456789abcdef01234567'',
                            userId = ''0123456789abcdef01234567'', userQuantity = 2,
                            status = ''pending''\<rparr>"
       and s = "\<lparr>users = [\<lparr>doc_id = ''0123456789abcdef01234567'', deletedAt = None, userName = ''Ana'',
                     email = ''ana@example.com'', password = Some ''hash'', roles = [''user'']\<rparr>],
           restaurants = [\<lparr>doc_id = ''0123456789abcdef01234567'', deletedAt = Some 1700000000000,
                           restaurantName = ''Otro'', address = ''Calle 1'', city = ''Cali'',
                           nit = ''900'', phone = ''111''\<rparr>],
           reservations = [\<lparr>doc_id = ''0123456789abcdef01234567'', deletedAt = Some 1700000000000,
                            date = ''2025-12-24'', hour = ''07:30PM'',
                            restaurantId = ''0123456789abcdef01234567'',
                            userId = ''0123456789abcdef01234567'', userQuantity = 2,
                            status = ''pending''\<rparr>],
           fault = None, calls = []\<rparr>"]
  by (simp add: isObjectId_sample hasId_def)

end
